theory Spec2Isabelle
  imports Main "HOL-Library.Word"
begin

section \<open>The SPI RAM driver of spiram.c, embedded\<close>

text \<open>
  The driver talks to three things outside the file: the STM32 HAL (the calls
  \<open>HAL_OSPI_Init\<close>, \<open>HAL_OSPI_Command\<close>, \<open>HAL_OSPI_Receive\<close>, \<open>HAL_OSPI_Transmit\<close>,
  \<open>HAL_OSPI_MemoryMapped\<close>), the MPU primitives of MicroPython, and the memory bus
  (loads and stores into the mapped window). None of them is code of the file, so the
  model takes them as a parameter \<open>hw\<close>: a record of functions that say, for the
  history of everything done so far, what the next call returns. The driver's own
  globals are the fields of a record \<open>state\<close>, passed through every function, and the
  field \<open>trace\<close> is the chronological list of everything the driver did to the outside.

  The file is modelled as it compiles: \<open>MICROPY_HW_SPIRAM_STARTUP_TEST\<close> defined (the
  file does not compile without it, \<open>spiram_error\<close> is declared under it and used outside
  it) and \<open>MICROPY_HW_SPIRAM_USE_HAL\<close> not set (the default MPU path).
\<close>

subsection \<open>Constants\<close>

definition SRAM_CMD_QUAD_READ :: "32 word" where "SRAM_CMD_QUAD_READ = 0xeb"
definition SRAM_CMD_QUAD_WRITE :: "32 word" where "SRAM_CMD_QUAD_WRITE = 0x38"
definition SRAM_CMD_QUAD_ON :: "32 word" where "SRAM_CMD_QUAD_ON = 0x35"
definition SRAM_CMD_RST_EN :: "32 word" where "SRAM_CMD_RST_EN = 0x66"
definition SRAM_CMD_RST :: "32 word" where "SRAM_CMD_RST = 0x99"
definition SRAM_CMD_READ_ID :: "32 word" where "SRAM_CMD_READ_ID = 0x9f"

text \<open>
  \<open>OCTOSPI1_BASE\<close> comes from the device header, which is not part of the file; its
  value is the one the file itself writes out as the MPU region base on the HAL path
  (\<open>MPU_InitStruct.BaseAddress = 0x90000000\<close>).
\<close>

definition OCTOSPI1_BASE :: "32 word" where "OCTOSPI1_BASE = 0x90000000"
definition OSPI_MAP_ADDR :: "32 word" where "OSPI_MAP_ADDR = OCTOSPI1_BASE"
definition MICROPY_HW_SPIRAM_SIZE :: nat where "MICROPY_HW_SPIRAM_SIZE = 0x800000"

definition spiram_pattern8 :: "8 word" where "spiram_pattern8 = 0xA5"
definition spiram_pattern16 :: "16 word" where "spiram_pattern16 = 0x5A5A"
definition spiram_pattern32 :: "32 word" where "spiram_pattern32 = 0xA5A5A5A5"

subsection \<open>Types of the HAL interface\<close>

datatype spiram_err_enum =
    SPIRAM_ERR_OK | SPIRAM_ERR_MEMTEST_PASS
  | SPIRAM_ERR_MEMTEST8 | SPIRAM_ERR_MEMTEST16 | SPIRAM_ERR_MEMTEST32
  | SPIRAM_ERR_OSPI_INIT | SPIRAM_ERR_OSPI_WRITE_CONFIG | SPIRAM_ERR_OSPI_READ_CONFIG
  | SPIRAM_ERR_OSPI_MMAP | SPIRAM_ERR_READID_CMD | SPIRAM_ERR_READID_DTA
  | SPIRAM_ERR_QSPI_RST_EN | SPIRAM_ERR_QSPI_RST | SPIRAM_ERR_SPI_RSTEN | SPIRAM_ERR_SPI_RST
  | SPIRAM_ERR_QUAD_ON | SPIRAM_ERR_CLEAR

datatype HAL_StatusTypeDef = HAL_OK | HAL_ERROR | HAL_BUSY | HAL_TIMEOUT

datatype ospi_optype =
  HAL_OSPI_OPTYPE_COMMON_CFG | HAL_OSPI_OPTYPE_READ_CFG | HAL_OSPI_OPTYPE_WRITE_CFG
datatype ospi_flash_id = HAL_OSPI_FLASH_ID_1
datatype ospi_instruction_mode = HAL_OSPI_INSTRUCTION_1_LINE | HAL_OSPI_INSTRUCTION_4_LINES
datatype ospi_instruction_size = HAL_OSPI_INSTRUCTION_8_BITS
datatype ospi_instruction_dtr = HAL_OSPI_INSTRUCTION_DTR_DISABLE
datatype ospi_address_mode =
  HAL_OSPI_ADDRESS_NONE | HAL_OSPI_ADDRESS_1_LINE | HAL_OSPI_ADDRESS_4_LINES
datatype ospi_address_size = HAL_OSPI_ADDRESS_24_BITS
datatype ospi_address_dtr = HAL_OSPI_ADDRESS_DTR_DISABLE
datatype ospi_alternate_bytes_mode = HAL_OSPI_ALTERNATE_BYTES_NONE
datatype ospi_data_mode = HAL_OSPI_DATA_NONE | HAL_OSPI_DATA_1_LINE | HAL_OSPI_DATA_4_LINES
datatype ospi_data_dtr = HAL_OSPI_DATA_DTR_DISABLE
datatype ospi_dqs_mode = HAL_OSPI_DQS_DISABLE | HAL_OSPI_DQS_ENABLE
datatype ospi_sioo_mode = HAL_OSPI_SIOO_INST_EVERY_CMD

text \<open>
  \<open>OSPI_RegularCmdTypeDef\<close>, with the fields the file assigns. Every function of the
  file assigns all of them; the alternate-bytes value, size and DTR mode stay at the
  zero of the \<open>{0}\<close> initialiser throughout and are left out.
\<close>

record OSPI_RegularCmdTypeDef =
  OperationType :: ospi_optype
  FlashId :: ospi_flash_id
  InstructionMode :: ospi_instruction_mode
  InstructionSize :: ospi_instruction_size
  InstructionDtrMode :: ospi_instruction_dtr
  AddressMode :: ospi_address_mode
  AddressSize :: ospi_address_size
  AddressDtrMode :: ospi_address_dtr
  AlternateBytesMode :: ospi_alternate_bytes_mode
  DataMode :: ospi_data_mode
  DataDtrMode :: ospi_data_dtr
  DQSMode :: ospi_dqs_mode
  SIOOMode :: ospi_sioo_mode
  Instruction :: "32 word"
  Address :: "32 word"
  NbData :: "32 word"
  DummyCycles :: "32 word"

datatype ospi_timeout_activation = HAL_OSPI_TIMEOUT_COUNTER_DISABLE | HAL_OSPI_TIMEOUT_COUNTER_ENABLE

record OSPI_MemoryMappedTypeDef =
  TimeOutActivation :: ospi_timeout_activation
  TimeOutPeriod :: "32 word"

datatype ospi_init_macro =
    HAL_OSPI_DUALQUAD_DISABLE | HAL_OSPI_MEMTYPE_APMEMORY | HAL_OSPI_FREERUNCLK_DISABLE
  | HAL_OSPI_CLOCK_MODE_0 | HAL_OSPI_SAMPLE_SHIFTING_HALFCYCLE | HAL_OSPI_DHQC_DISABLE
  | HAL_OSPI_DELAY_BLOCK_BYPASSED

record OSPI_InitTypeDef =
  FifoThreshold :: "32 word"
  DualQuad :: ospi_init_macro
  MemoryType :: ospi_init_macro
  DeviceSize :: "32 word"
  ChipSelectHighTime :: "32 word"
  FreeRunningClock :: ospi_init_macro
  ClockMode :: ospi_init_macro
  ClockPrescaler :: "32 word"
  SampleShifting :: ospi_init_macro
  DelayHoldQuarterCycle :: ospi_init_macro
  ChipSelectBoundary :: "32 word"
  DelayBlockBypass :: ospi_init_macro
  MaxTran :: "32 word"
  Refresh :: "32 word"

datatype gpio_port = GPIOB | GPIOD | GPIOE

datatype spiram_pin =
    MICROPY_HW_SPIRAM_CS | MICROPY_HW_SPIRAM_SCK | MICROPY_HW_SPIRAM_IO0
  | MICROPY_HW_SPIRAM_IO1 | MICROPY_HW_SPIRAM_IO2 | MICROPY_HW_SPIRAM_IO3

datatype pin_af =
    STATIC_AF_QUADSPI_BK1_NCS | STATIC_AF_QUADSPI_CLK | STATIC_AF_QUADSPI_BK1_IO0
  | STATIC_AF_QUADSPI_BK1_IO1 | STATIC_AF_QUADSPI_BK1_IO2 | STATIC_AF_QUADSPI_BK1_IO3

datatype mpu_region = MPU_REGION_QSPI1 | MPU_REGION_QSPI2

datatype mpu_size = MPU_REGION_SIZE_8MB | MPU_REGION_SIZE_256MB

datatype mpu_attr = MPU_CONFIG_DISABLE "32 word" mpu_size | MPU_CONFIG_SDRAM mpu_size

subsection \<open>What the driver does to the outside: events\<close>

datatype hal_call =
    OSPI_DeInit
  | OSPI_Init OSPI_InitTypeDef
  | OSPI_Command OSPI_RegularCmdTypeDef
  | OSPI_Receive
  | OSPI_Transmit "8 word list"
  | OSPI_MemoryMapped OSPI_MemoryMappedTypeDef

datatype event =
    RCC_OSPI1_CLK_ENABLE | RCC_OSPI1_FORCE_RESET | RCC_OSPI1_RELEASE_RESET
  | RCC_GPIO_CLK_ENABLE gpio_port
  | Pin_config_alt spiram_pin pin_af
  | Hal hal_call HAL_StatusTypeDef
  | Mpu_config_start
  | Mpu_config_region mpu_region "32 word" mpu_attr
  | Mpu_config_end
  | Store8 "32 word" "8 word"
  | Store16 "32 word" "16 word"
  | Store32 "32 word" "32 word"
  | Load8 "32 word" "8 word"
  | Load16 "32 word" "16 word"
  | Load32 "32 word" "32 word"

text \<open>
  The outside world. Each function gets the history so far (and the argument of the
  call) and gives the answer of the hardware: a HAL status, the bytes a receive leaves
  in the buffer, the value a load returns. A load event carries the value returned.
\<close>

record hardware =
  hal_status :: "event list \<Rightarrow> hal_call \<Rightarrow> HAL_StatusTypeDef"
  hal_received :: "event list \<Rightarrow> 8 word list"
  bus_load8 :: "event list \<Rightarrow> 32 word \<Rightarrow> 8 word"
  bus_load16 :: "event list \<Rightarrow> 32 word \<Rightarrow> 16 word"
  bus_load32 :: "event list \<Rightarrow> 32 word \<Rightarrow> 32 word"

subsection \<open>The globals of the file\<close>

record state =
  spiram_err :: spiram_err_enum
  spiram_id :: "8 word list"
  spiram_bad_addr :: "32 word"
  spiram_bad_pattern8 :: "8 word"
  spiram_bad_pattern16 :: "16 word"
  spiram_bad_pattern32 :: "32 word"
  trace :: "event list"

text \<open>
  The static initialisers: \<open>-1\<close> in an unsigned type is all ones. \<open>spiram_id\<close> is an
  array of eight bytes.
\<close>

definition sizeof_spiram_id :: nat where "sizeof_spiram_id = 8"

definition initial_state :: state where
  "initial_state =
     \<lparr>spiram_err = SPIRAM_ERR_OK, spiram_id = replicate sizeof_spiram_id 0, spiram_bad_addr = - 1,
      spiram_bad_pattern8 = - 1, spiram_bad_pattern16 = - 1, spiram_bad_pattern32 = - 1,
      trace = []\<rparr>"

definition spiram_error :: "spiram_err_enum \<Rightarrow> state \<Rightarrow> state" where
  "spiram_error errno s =
     (if spiram_err s = SPIRAM_ERR_OK then s\<lparr>spiram_err := errno\<rparr> else s)"

subsection \<open>The primitives: HAL calls, MPU configuration, loads and stores\<close>

definition emit :: "event \<Rightarrow> state \<Rightarrow> state" where
  "emit e s = s\<lparr>trace := trace s @ [e]\<rparr>"

definition hal :: "hardware \<Rightarrow> hal_call \<Rightarrow> state \<Rightarrow> HAL_StatusTypeDef \<times> state" where
  "hal hw c s = (let r = hal_status hw (trace s) c in (r, emit (Hal c r) s))"

text \<open>
  \<open>HAL_OSPI_Receive\<close> writes into the caller's buffer: the bytes the hardware delivers
  overwrite the front of the buffer, which keeps its length.
\<close>

definition fill_buffer :: "8 word list \<Rightarrow> 8 word list \<Rightarrow> 8 word list" where
  "fill_buffer buf bytes = take (length buf) (bytes @ drop (length bytes) buf)"

definition hal_receive :: "hardware \<Rightarrow> 8 word list \<Rightarrow> state \<Rightarrow> (HAL_StatusTypeDef \<times> 8 word list) \<times> state" where
  "hal_receive hw buf s =
     (let bytes = hal_received hw (trace s); (r, s') = hal hw OSPI_Receive s
      in ((r, fill_buffer buf bytes), s'))"

text \<open>The idiom \<open>if (call != HAL_OK) { spiram_error(errno); }\<close>.\<close>

definition check :: "spiram_err_enum \<Rightarrow> HAL_StatusTypeDef \<times> state \<Rightarrow> state" where
  "check errno rs = (if fst rs \<noteq> HAL_OK then spiram_error errno (snd rs) else snd rs)"

definition store8 :: "32 word \<Rightarrow> 8 word \<Rightarrow> state \<Rightarrow> state" where
  "store8 a v s = emit (Store8 a v) s"
definition store16 :: "32 word \<Rightarrow> 16 word \<Rightarrow> state \<Rightarrow> state" where
  "store16 a v s = emit (Store16 a v) s"
definition store32 :: "32 word \<Rightarrow> 32 word \<Rightarrow> state \<Rightarrow> state" where
  "store32 a v s = emit (Store32 a v) s"

definition load8 :: "hardware \<Rightarrow> 32 word \<Rightarrow> state \<Rightarrow> 8 word \<times> state" where
  "load8 hw a s = (let v = bus_load8 hw (trace s) a in (v, emit (Load8 a v) s))"
definition load16 :: "hardware \<Rightarrow> 32 word \<Rightarrow> state \<Rightarrow> 16 word \<times> state" where
  "load16 hw a s = (let v = bus_load16 hw (trace s) a in (v, emit (Load16 a v) s))"
definition load32 :: "hardware \<Rightarrow> 32 word \<Rightarrow> state \<Rightarrow> 32 word \<times> state" where
  "load32 hw a s = (let v = bus_load32 hw (trace s) a in (v, emit (Load32 a v) s))"

subsection \<open>MPU configuration (the MicroPython path)\<close>

definition ospi_mpu_disable_all :: "state \<Rightarrow> state" where
  "ospi_mpu_disable_all s0 =
     (let s1 = emit Mpu_config_start s0;
          s2 = emit (Mpu_config_region MPU_REGION_QSPI1 OSPI_MAP_ADDR
                       (MPU_CONFIG_DISABLE 0x00 MPU_REGION_SIZE_256MB)) s1
      in emit Mpu_config_end s2)"

definition ospi_mpu_enable_mapped :: "state \<Rightarrow> state" where
  "ospi_mpu_enable_mapped s0 =
     (let s1 = emit Mpu_config_start s0;
          s2 = emit (Mpu_config_region MPU_REGION_QSPI1 OSPI_MAP_ADDR
                       (MPU_CONFIG_DISABLE 0x00 MPU_REGION_SIZE_256MB)) s1;
          s3 = emit (Mpu_config_region MPU_REGION_QSPI2 OSPI_MAP_ADDR
                       (MPU_CONFIG_SDRAM MPU_REGION_SIZE_8MB)) s2
      in emit Mpu_config_end s3)"

subsection \<open>ospi_init\<close>

definition hospi1_Init :: OSPI_InitTypeDef where
  "hospi1_Init =
     \<lparr>FifoThreshold = 1, DualQuad = HAL_OSPI_DUALQUAD_DISABLE,
      MemoryType = HAL_OSPI_MEMTYPE_APMEMORY, DeviceSize = 23, ChipSelectHighTime = 1,
      FreeRunningClock = HAL_OSPI_FREERUNCLK_DISABLE, ClockMode = HAL_OSPI_CLOCK_MODE_0,
      ClockPrescaler = 0x02, SampleShifting = HAL_OSPI_SAMPLE_SHIFTING_HALFCYCLE,
      DelayHoldQuarterCycle = HAL_OSPI_DHQC_DISABLE, ChipSelectBoundary = 10,
      DelayBlockBypass = HAL_OSPI_DELAY_BLOCK_BYPASSED, MaxTran = 0, Refresh = 0\<rparr>"

definition ospi_init_setup :: "event list" where
  "ospi_init_setup =
     [RCC_OSPI1_CLK_ENABLE, RCC_OSPI1_FORCE_RESET, RCC_OSPI1_RELEASE_RESET,
      RCC_GPIO_CLK_ENABLE GPIOB, RCC_GPIO_CLK_ENABLE GPIOD, RCC_GPIO_CLK_ENABLE GPIOE,
      Pin_config_alt MICROPY_HW_SPIRAM_CS STATIC_AF_QUADSPI_BK1_NCS,
      Pin_config_alt MICROPY_HW_SPIRAM_SCK STATIC_AF_QUADSPI_CLK,
      Pin_config_alt MICROPY_HW_SPIRAM_IO0 STATIC_AF_QUADSPI_BK1_IO0,
      Pin_config_alt MICROPY_HW_SPIRAM_IO1 STATIC_AF_QUADSPI_BK1_IO1,
      Pin_config_alt MICROPY_HW_SPIRAM_IO2 STATIC_AF_QUADSPI_BK1_IO2,
      Pin_config_alt MICROPY_HW_SPIRAM_IO3 STATIC_AF_QUADSPI_BK1_IO3]"

text \<open>The result of \<open>HAL_OSPI_DeInit\<close> is not looked at.\<close>

definition ospi_init :: "hardware \<Rightarrow> state \<Rightarrow> state" where
  "ospi_init hw s0 =
     (let s1 = s0\<lparr>trace := trace s0 @ ospi_init_setup\<rparr>;
          s2 = snd (hal hw OSPI_DeInit s1)
      in check SPIRAM_ERR_OSPI_INIT (hal hw (OSPI_Init hospi1_Init) s2))"

subsection \<open>ospi_mmap\<close>

definition ospi_mmap :: "hardware \<Rightarrow> state \<Rightarrow> state" where
  "ospi_mmap hw s0 =
     (let s1 = ospi_mpu_disable_all s0;
          sCommand =
            \<lparr>OperationType = HAL_OSPI_OPTYPE_WRITE_CFG, FlashId = HAL_OSPI_FLASH_ID_1,
             InstructionMode = HAL_OSPI_INSTRUCTION_4_LINES,
             InstructionSize = HAL_OSPI_INSTRUCTION_8_BITS,
             InstructionDtrMode = HAL_OSPI_INSTRUCTION_DTR_DISABLE,
             AddressMode = HAL_OSPI_ADDRESS_4_LINES, AddressSize = HAL_OSPI_ADDRESS_24_BITS,
             AddressDtrMode = HAL_OSPI_ADDRESS_DTR_DISABLE,
             AlternateBytesMode = HAL_OSPI_ALTERNATE_BYTES_NONE,
             DataMode = HAL_OSPI_DATA_4_LINES, DataDtrMode = HAL_OSPI_DATA_DTR_DISABLE,
             DQSMode = HAL_OSPI_DQS_ENABLE, SIOOMode = HAL_OSPI_SIOO_INST_EVERY_CMD,
             Instruction = SRAM_CMD_QUAD_WRITE, Address = 0, NbData = 0, DummyCycles = 0\<rparr>;
          s2 = check SPIRAM_ERR_OSPI_WRITE_CONFIG (hal hw (OSPI_Command sCommand) s1);
          sCommand = sCommand\<lparr>DQSMode := HAL_OSPI_DQS_DISABLE\<rparr>;
          sCommand = sCommand\<lparr>OperationType := HAL_OSPI_OPTYPE_READ_CFG\<rparr>;
          sCommand = sCommand\<lparr>Instruction := SRAM_CMD_QUAD_READ\<rparr>;
          sCommand = sCommand\<lparr>DummyCycles := 6\<rparr>;
          s3 = check SPIRAM_ERR_OSPI_READ_CONFIG (hal hw (OSPI_Command sCommand) s2);
          sMemMappedCfg =
            \<lparr>TimeOutActivation = HAL_OSPI_TIMEOUT_COUNTER_ENABLE, TimeOutPeriod = 1\<rparr>;
          s4 = check SPIRAM_ERR_OSPI_MMAP (hal hw (OSPI_MemoryMapped sMemMappedCfg) s3)
      in ospi_mpu_enable_mapped s4)"

subsection \<open>spiram_read_id and spiram_quad_on\<close>

definition spiram_read_id :: "hardware \<Rightarrow> state \<Rightarrow> state" where
  "spiram_read_id hw s0 =
     (let sCommand =
            \<lparr>OperationType = HAL_OSPI_OPTYPE_COMMON_CFG, FlashId = HAL_OSPI_FLASH_ID_1,
             InstructionMode = HAL_OSPI_INSTRUCTION_1_LINE,
             InstructionSize = HAL_OSPI_INSTRUCTION_8_BITS,
             InstructionDtrMode = HAL_OSPI_INSTRUCTION_DTR_DISABLE,
             AddressMode = HAL_OSPI_ADDRESS_1_LINE, AddressSize = HAL_OSPI_ADDRESS_24_BITS,
             AddressDtrMode = HAL_OSPI_ADDRESS_DTR_DISABLE,
             AlternateBytesMode = HAL_OSPI_ALTERNATE_BYTES_NONE,
             DataMode = HAL_OSPI_DATA_1_LINE, DataDtrMode = HAL_OSPI_DATA_DTR_DISABLE,
             DQSMode = HAL_OSPI_DQS_DISABLE, SIOOMode = HAL_OSPI_SIOO_INST_EVERY_CMD,
             Instruction = SRAM_CMD_READ_ID, Address = 0,
             NbData = of_nat sizeof_spiram_id, DummyCycles = 0\<rparr>;
          s1 = check SPIRAM_ERR_READID_CMD (hal hw (OSPI_Command sCommand) s0);
          ((r, buf), s2) = hal_receive hw (spiram_id s1) s1;
          s3 = s2\<lparr>spiram_id := buf\<rparr>
      in check SPIRAM_ERR_READID_DTA (r, s3))"

definition spiram_quad_on :: "hardware \<Rightarrow> state \<Rightarrow> state" where
  "spiram_quad_on hw s0 =
     (let sCommand =
            \<lparr>OperationType = HAL_OSPI_OPTYPE_COMMON_CFG, FlashId = HAL_OSPI_FLASH_ID_1,
             InstructionMode = HAL_OSPI_INSTRUCTION_4_LINES,
             InstructionSize = HAL_OSPI_INSTRUCTION_8_BITS,
             InstructionDtrMode = HAL_OSPI_INSTRUCTION_DTR_DISABLE,
             AddressMode = HAL_OSPI_ADDRESS_NONE, AddressSize = HAL_OSPI_ADDRESS_24_BITS,
             AddressDtrMode = HAL_OSPI_ADDRESS_DTR_DISABLE,
             AlternateBytesMode = HAL_OSPI_ALTERNATE_BYTES_NONE,
             DataMode = HAL_OSPI_DATA_NONE, DataDtrMode = HAL_OSPI_DATA_DTR_DISABLE,
             DQSMode = HAL_OSPI_DQS_DISABLE, SIOOMode = HAL_OSPI_SIOO_INST_EVERY_CMD,
             Instruction = SRAM_CMD_RST_EN, Address = 0, NbData = 0, DummyCycles = 0\<rparr>;
          s1 = check SPIRAM_ERR_QSPI_RST_EN (hal hw (OSPI_Command sCommand) s0);
          sCommand = sCommand\<lparr>Instruction := SRAM_CMD_RST\<rparr>;
          s2 = check SPIRAM_ERR_QSPI_RST (hal hw (OSPI_Command sCommand) s1);
          sCommand = sCommand\<lparr>InstructionMode := HAL_OSPI_INSTRUCTION_1_LINE\<rparr>;
          sCommand = sCommand\<lparr>Instruction := SRAM_CMD_RST_EN\<rparr>;
          s3 = check SPIRAM_ERR_SPI_RSTEN (hal hw (OSPI_Command sCommand) s2);
          sCommand = sCommand\<lparr>Instruction := SRAM_CMD_RST\<rparr>;
          s4 = check SPIRAM_ERR_SPI_RST (hal hw (OSPI_Command sCommand) s3);
          s5 = spiram_read_id hw s4;
          sCommand = sCommand\<lparr>Instruction := SRAM_CMD_QUAD_ON\<rparr>
      in check SPIRAM_ERR_QUAD_ON (hal hw (OSPI_Command sCommand) s5))"

subsection \<open>spiram_clear\<close>

text \<open>
  The source array \<open>src\<close> holds eight 32-bit words; \<open>HAL_OSPI_Transmit\<close> gets it as
  bytes. The Cortex-M7 is little-endian: the low byte of a word comes first.
\<close>

definition le_bytes32 :: "32 word \<Rightarrow> 8 word list" where
  "le_bytes32 w = [ucast w, ucast (drop_bit 8 w), ucast (drop_bit 16 w), ucast (drop_bit 24 w)]"

definition spiram_clear_src :: "32 word list" where
  "spiram_clear_src = replicate 8 0xDEADBEEF"

definition spiram_clear_cmd :: OSPI_RegularCmdTypeDef where
  "spiram_clear_cmd =
     \<lparr>OperationType = HAL_OSPI_OPTYPE_COMMON_CFG, FlashId = HAL_OSPI_FLASH_ID_1,
      InstructionMode = HAL_OSPI_INSTRUCTION_4_LINES,
      InstructionSize = HAL_OSPI_INSTRUCTION_8_BITS,
      InstructionDtrMode = HAL_OSPI_INSTRUCTION_DTR_DISABLE,
      AddressMode = HAL_OSPI_ADDRESS_4_LINES, AddressSize = HAL_OSPI_ADDRESS_24_BITS,
      AddressDtrMode = HAL_OSPI_ADDRESS_DTR_DISABLE,
      AlternateBytesMode = HAL_OSPI_ALTERNATE_BYTES_NONE,
      DataMode = HAL_OSPI_DATA_4_LINES, DataDtrMode = HAL_OSPI_DATA_DTR_DISABLE,
      DQSMode = HAL_OSPI_DQS_ENABLE, SIOOMode = HAL_OSPI_SIOO_INST_EVERY_CMD,
      Instruction = SRAM_CMD_QUAD_WRITE, Address = 0,
      NbData = of_nat (4 * length spiram_clear_src), DummyCycles = 0\<rparr>"

text \<open>
  The loop \<open>for (addr = 0; addr < MICROPY_HW_SPIRAM_SIZE; addr += sizeof(src))\<close>. The
  counter is a \<open>uint32_t\<close> that never exceeds \<open>0x800000\<close>, so it does not wrap and is a
  \<open>nat\<close> here; it becomes a 32-bit word where it is stored in the command.
\<close>

function spiram_clear_loop :: "hardware \<Rightarrow> nat \<Rightarrow> state \<Rightarrow> state" where
  "spiram_clear_loop hw addr s =
     (if addr < MICROPY_HW_SPIRAM_SIZE then
        let sCommand = spiram_clear_cmd\<lparr>Address := of_nat addr\<rparr>;
            s1 = check SPIRAM_ERR_CLEAR (hal hw (OSPI_Command sCommand) s);
            s2 = check SPIRAM_ERR_CLEAR
                   (hal hw (OSPI_Transmit (concat (map le_bytes32 spiram_clear_src))) s1)
        in spiram_clear_loop hw (addr + 4 * length spiram_clear_src) s2
      else s)"
  by pat_completeness auto
termination
  by (relation "measure (\<lambda>(hw, addr, s). MICROPY_HW_SPIRAM_SIZE - addr)")
     (auto simp: spiram_clear_src_def)

declare spiram_clear_loop.simps [simp del]

definition spiram_clear :: "hardware \<Rightarrow> state \<Rightarrow> state" where
  "spiram_clear hw s = spiram_clear_loop hw 0 s"

subsection \<open>spiram_read and spiram_write\<close>

text \<open>
  \<open>mp_raise_msg\<close> does not return: the function ends there with the exception, in the
  state reached so far. The outcome is \<open>Inl\<close> of the exception, or \<open>Inr\<close> of what the
  call leaves in the caller's buffer.
\<close>

datatype mp_exception = RuntimeError string

definition spiram_read ::
  "hardware \<Rightarrow> 32 word \<Rightarrow> 32 word \<Rightarrow> 8 word list \<Rightarrow> state \<Rightarrow> (mp_exception + 8 word list) \<times> state" where
  "spiram_read hw addr len dest s0 =
     (let sCommand =
            \<lparr>OperationType = HAL_OSPI_OPTYPE_COMMON_CFG, FlashId = HAL_OSPI_FLASH_ID_1,
             InstructionMode = HAL_OSPI_INSTRUCTION_4_LINES,
             InstructionSize = HAL_OSPI_INSTRUCTION_8_BITS,
             InstructionDtrMode = HAL_OSPI_INSTRUCTION_DTR_DISABLE,
             AddressMode = HAL_OSPI_ADDRESS_4_LINES, AddressSize = HAL_OSPI_ADDRESS_24_BITS,
             AddressDtrMode = HAL_OSPI_ADDRESS_DTR_DISABLE,
             AlternateBytesMode = HAL_OSPI_ALTERNATE_BYTES_NONE,
             DataMode = HAL_OSPI_DATA_4_LINES, DataDtrMode = HAL_OSPI_DATA_DTR_DISABLE,
             DQSMode = HAL_OSPI_DQS_DISABLE, SIOOMode = HAL_OSPI_SIOO_INST_EVERY_CMD,
             Instruction = SRAM_CMD_QUAD_READ, Address = addr, NbData = len,
             DummyCycles = 6\<rparr>;
          (r, s1) = hal hw (OSPI_Command sCommand) s0
      in if r \<noteq> HAL_OK then (Inl (RuntimeError ''HAL_OSPI_Command''), s1)
         else
           let ((r, buf), s2) = hal_receive hw dest s1
           in if r \<noteq> HAL_OK then (Inl (RuntimeError ''HAL_OSPI_Receive''), s2)
              else (Inr buf, s2))"

definition spiram_write ::
  "hardware \<Rightarrow> 32 word \<Rightarrow> 32 word \<Rightarrow> 8 word list \<Rightarrow> state \<Rightarrow> (mp_exception + unit) \<times> state" where
  "spiram_write hw addr len src s0 =
     (let sCommand =
            \<lparr>OperationType = HAL_OSPI_OPTYPE_COMMON_CFG, FlashId = HAL_OSPI_FLASH_ID_1,
             InstructionMode = HAL_OSPI_INSTRUCTION_4_LINES,
             InstructionSize = HAL_OSPI_INSTRUCTION_8_BITS,
             InstructionDtrMode = HAL_OSPI_INSTRUCTION_DTR_DISABLE,
             AddressMode = HAL_OSPI_ADDRESS_4_LINES, AddressSize = HAL_OSPI_ADDRESS_24_BITS,
             AddressDtrMode = HAL_OSPI_ADDRESS_DTR_DISABLE,
             AlternateBytesMode = HAL_OSPI_ALTERNATE_BYTES_NONE,
             DataMode = HAL_OSPI_DATA_4_LINES, DataDtrMode = HAL_OSPI_DATA_DTR_DISABLE,
             DQSMode = HAL_OSPI_DQS_ENABLE, SIOOMode = HAL_OSPI_SIOO_INST_EVERY_CMD,
             Instruction = SRAM_CMD_QUAD_WRITE, Address = addr, NbData = len,
             DummyCycles = 0\<rparr>;
          (r, s1) = hal hw (OSPI_Command sCommand) s0
      in if r \<noteq> HAL_OK then (Inl (RuntimeError ''HAL_OSPI_Command''), s1)
         else
           let (r, s2) = hal hw (OSPI_Transmit src) s1
           in if r \<noteq> HAL_OK then (Inl (RuntimeError ''HAL_OSPI_Transmit''), s2)
              else (Inr (), s2))"

subsection \<open>The memory tests\<close>

text \<open>
  Each test has two loops over the window, a write loop and a read loop; the read loop
  returns from the function at the first mismatch. The counters are \<open>uint32_t\<close>s below
  \<open>0x800000\<close> (no wrap-around), the addresses are 32-bit words: element \<open>i\<close> of a
  \<open>uint16_t\<close> array at \<open>OSPI_MAP_ADDR\<close> is at byte address \<open>OSPI_MAP_ADDR + 2 * i\<close>.
\<close>

function memtest8_write :: "nat \<Rightarrow> state \<Rightarrow> state" where
  "memtest8_write i s =
     (if i < MICROPY_HW_SPIRAM_SIZE then
        memtest8_write (i + 1) (store8 (OSPI_MAP_ADDR + of_nat i) spiram_pattern8 s)
      else s)"
  by pat_completeness auto
termination
  by (relation "measure (\<lambda>(i, s). MICROPY_HW_SPIRAM_SIZE - i)") auto

function memtest8_read :: "hardware \<Rightarrow> nat \<Rightarrow> state \<Rightarrow> state" where
  "memtest8_read hw i s =
     (if i < MICROPY_HW_SPIRAM_SIZE then
        let (mem_read8, s1) = load8 hw (OSPI_MAP_ADDR + of_nat i) s
        in if mem_read8 \<noteq> spiram_pattern8 then
             let s2 = spiram_error SPIRAM_ERR_MEMTEST8 s1;
                 s3 = s2\<lparr>spiram_bad_addr := OSPI_MAP_ADDR + of_nat i\<rparr>
             in s3\<lparr>spiram_bad_pattern8 := mem_read8\<rparr>
           else memtest8_read hw (i + 1) s1
      else s)"
  by pat_completeness auto
termination
  by (relation "measure (\<lambda>(hw, i, s). MICROPY_HW_SPIRAM_SIZE - i)") auto

definition spiram_memtest8 :: "hardware \<Rightarrow> state \<Rightarrow> state" where
  "spiram_memtest8 hw s = memtest8_read hw 0 (memtest8_write 0 s)"

function memtest16_write :: "nat \<Rightarrow> state \<Rightarrow> state" where
  "memtest16_write i s =
     (if i < MICROPY_HW_SPIRAM_SIZE div 2 then
        memtest16_write (i + 1) (store16 (OSPI_MAP_ADDR + 2 * of_nat i) spiram_pattern16 s)
      else s)"
  by pat_completeness auto
termination
  by (relation "measure (\<lambda>(i, s). MICROPY_HW_SPIRAM_SIZE div 2 - i)") auto

function memtest16_read :: "hardware \<Rightarrow> nat \<Rightarrow> state \<Rightarrow> state" where
  "memtest16_read hw i s =
     (if i < MICROPY_HW_SPIRAM_SIZE div 2 then
        let (mem_read16, s1) = load16 hw (OSPI_MAP_ADDR + 2 * of_nat i) s
        in if mem_read16 \<noteq> spiram_pattern16 then
             let s2 = spiram_error SPIRAM_ERR_MEMTEST16 s1;
                 s3 = s2\<lparr>spiram_bad_addr := OSPI_MAP_ADDR + 2 * of_nat i\<rparr>
             in s3\<lparr>spiram_bad_pattern16 := mem_read16\<rparr>
           else memtest16_read hw (i + 1) s1
      else s)"
  by pat_completeness auto
termination
  by (relation "measure (\<lambda>(hw, i, s). MICROPY_HW_SPIRAM_SIZE div 2 - i)") auto

definition spiram_memtest16 :: "hardware \<Rightarrow> state \<Rightarrow> state" where
  "spiram_memtest16 hw s = memtest16_read hw 0 (memtest16_write 0 s)"

function memtest32_write :: "nat \<Rightarrow> state \<Rightarrow> state" where
  "memtest32_write i s =
     (if i < MICROPY_HW_SPIRAM_SIZE div 4 then
        memtest32_write (i + 1) (store32 (OSPI_MAP_ADDR + 4 * of_nat i) spiram_pattern32 s)
      else s)"
  by pat_completeness auto
termination
  by (relation "measure (\<lambda>(i, s). MICROPY_HW_SPIRAM_SIZE div 4 - i)") auto

function memtest32_read :: "hardware \<Rightarrow> nat \<Rightarrow> state \<Rightarrow> state" where
  "memtest32_read hw i s =
     (if i < MICROPY_HW_SPIRAM_SIZE div 4 then
        let (mem_read32, s1) = load32 hw (OSPI_MAP_ADDR + 4 * of_nat i) s
        in if mem_read32 \<noteq> spiram_pattern32 then
             let s2 = spiram_error SPIRAM_ERR_MEMTEST32 s1;
                 s3 = s2\<lparr>spiram_bad_addr := OSPI_MAP_ADDR + 4 * of_nat i\<rparr>
             in s3\<lparr>spiram_bad_pattern32 := mem_read32\<rparr>
           else memtest32_read hw (i + 1) s1
      else s)"
  by pat_completeness auto
termination
  by (relation "measure (\<lambda>(hw, i, s). MICROPY_HW_SPIRAM_SIZE div 4 - i)") auto

definition spiram_memtest32 :: "hardware \<Rightarrow> state \<Rightarrow> state" where
  "spiram_memtest32 hw s = memtest32_read hw 0 (memtest32_write 0 s)"

declare memtest8_write.simps [simp del] memtest8_read.simps [simp del]
declare memtest16_write.simps [simp del] memtest16_read.simps [simp del]
declare memtest32_write.simps [simp del] memtest32_read.simps [simp del]

subsection \<open>spiram_test and spiram_init\<close>

definition spiram_test :: "hardware \<Rightarrow> bool \<Rightarrow> state \<Rightarrow> bool \<times> state" where
  "spiram_test hw fast s0 =
     (let s1 = spiram_memtest32 hw s0;
          s2 = spiram_memtest16 hw s1;
          s3 = spiram_memtest8 hw s2;
          s4 = spiram_error SPIRAM_ERR_MEMTEST_PASS s3
      in (spiram_err s4 = SPIRAM_ERR_MEMTEST_PASS, s4))"

definition spiram_init :: "hardware \<Rightarrow> state \<Rightarrow> bool \<times> state" where
  "spiram_init hw s0 =
     (let s1 = ospi_init hw s0;
          s2 = spiram_quad_on hw s1;
          s3 = spiram_clear hw s2;
          s4 = ospi_mmap hw s3;
          s5 = snd (spiram_test hw False s4)
      in (True, s5))"

definition spiram_start :: "32 word" where
  "spiram_start = OSPI_MAP_ADDR"

definition spiram_end :: "32 word" where
  "spiram_end = OSPI_MAP_ADDR + of_nat MICROPY_HW_SPIRAM_SIZE"

subsection \<open>spiram_dmesg\<close>

text \<open>
  The report is a sequence of \<open>mp_printf\<close> calls; the model gives each call's format
  string and its arguments (promoted to 32 bits, as C passes them). The identifier has
  eight bytes; the \<open>default\<close> branch of the \<open>switch\<close> cannot be reached from a value of
  the enumeration.
\<close>

definition spiram_dmesg :: "state \<Rightarrow> (string \<times> 32 word list) list" where
  "spiram_dmesg s =
     [(''spiram eid'', [])]
     @ map (\<lambda>b. ('' %02x'', [ucast b])) (spiram_id s)
     @ [(''\<newline>'', [])]
     @ [case spiram_err s of
          SPIRAM_ERR_OK \<Rightarrow> (''spiram ok\<newline>'', [])
        | SPIRAM_ERR_MEMTEST_PASS \<Rightarrow> (''spiram memtest pass\<newline>'', [])
        | SPIRAM_ERR_MEMTEST8 \<Rightarrow>
            (''spiram memtest8 fail, address 0x%08x written 0x%02x read 0x%02x\<newline>'',
             [spiram_bad_addr s, ucast spiram_pattern8, ucast (spiram_bad_pattern8 s)])
        | SPIRAM_ERR_MEMTEST16 \<Rightarrow>
            (''spiram memtest16 fail, address 0x%08x written 0x%04x read 0x%04x\<newline>'',
             [spiram_bad_addr s, ucast spiram_pattern16, ucast (spiram_bad_pattern16 s)])
        | SPIRAM_ERR_MEMTEST32 \<Rightarrow>
            (''spiram memtest32 fail, address 0x%08x written 0x%08x read 0x%08x\<newline>'',
             [spiram_bad_addr s, spiram_pattern32, spiram_bad_pattern32 s])
        | SPIRAM_ERR_OSPI_INIT \<Rightarrow> (''spiram ospi init fail\<newline>'', [])
        | SPIRAM_ERR_OSPI_WRITE_CONFIG \<Rightarrow> (''spiram mmap write config fail\<newline>'', [])
        | SPIRAM_ERR_OSPI_READ_CONFIG \<Rightarrow> (''spiram mmap read config fail\<newline>'', [])
        | SPIRAM_ERR_OSPI_MMAP \<Rightarrow> (''spiram mmap fail\<newline>'', [])
        | SPIRAM_ERR_READID_CMD \<Rightarrow> (''spiram readid cmd fail\<newline>'', [])
        | SPIRAM_ERR_READID_DTA \<Rightarrow> (''spiram readid dta fail\<newline>'', [])
        | SPIRAM_ERR_QSPI_RST_EN \<Rightarrow> (''spiram qspi rst_en fail\<newline>'', [])
        | SPIRAM_ERR_QSPI_RST \<Rightarrow> (''spiram qspi rst fail\<newline>'', [])
        | SPIRAM_ERR_SPI_RSTEN \<Rightarrow> (''spiram spi rst_en fail\<newline>'', [])
        | SPIRAM_ERR_SPI_RST \<Rightarrow> (''spiram spi rst fail\<newline>'', [])
        | SPIRAM_ERR_QUAD_ON \<Rightarrow> (''spiram spi quad on fail\<newline>'', [])
        | SPIRAM_ERR_CLEAR \<Rightarrow> (''spiram clear fail\<newline>'', [])]"

section \<open>The specification side\<close>

subsection \<open>One granularity of the self-test, as the specification words it\<close>

text \<open>
  The definitions of this subsection are not translated from the source. They say, in
  closed form, what a granularity's pass is specified to do, and are compared with the
  loops of the source in the theorems below. For a width \<open>w\<close>: \<open>stores\<close> is the write
  of the pattern to every element of the window, in address order; \<open>good_loads i k\<close>
  are the loads of elements \<open>i..k-1\<close>, each returning the pattern; \<open>mismatch_at hw h i k\<close>
  says that, after the history \<open>h\<close> and good loads of elements \<open>i..k-1\<close>, the load of
  element \<open>k\<close> returns something else; \<open>first_mismatch\<close> is the first such element of the
  window, if any; and \<open>scan\<close> is the whole pass: all stores, then the loads up to and
  including the first mismatch, which is recorded through \<open>spiram_error\<close> together with
  its address and the value read.
\<close>

definition stores32 :: "event list" where
  "stores32 =
     map (\<lambda>i. Store32 (OSPI_MAP_ADDR + 4 * of_nat i) spiram_pattern32) [0..<MICROPY_HW_SPIRAM_SIZE div 4]"

definition good_loads32 :: "nat \<Rightarrow> nat \<Rightarrow> event list" where
  "good_loads32 i k =
     map (\<lambda>j. Load32 (OSPI_MAP_ADDR + 4 * of_nat j) spiram_pattern32) [i..<k]"

definition mismatch32_at :: "hardware \<Rightarrow> event list \<Rightarrow> nat \<Rightarrow> nat \<Rightarrow> bool" where
  "mismatch32_at hw h i k =
     (bus_load32 hw (h @ good_loads32 i k) (OSPI_MAP_ADDR + 4 * of_nat k) \<noteq> spiram_pattern32)"

definition first_mismatch32 :: "hardware \<Rightarrow> event list \<Rightarrow> nat option" where
  "first_mismatch32 hw h = find (mismatch32_at hw h 0) [0..<MICROPY_HW_SPIRAM_SIZE div 4]"

definition scan32 :: "hardware \<Rightarrow> state \<Rightarrow> state" where
  "scan32 hw s =
     (let h = trace s @ stores32
      in case first_mismatch32 hw h of
           None \<Rightarrow> s\<lparr>trace := h @ good_loads32 0 (MICROPY_HW_SPIRAM_SIZE div 4)\<rparr>
         | Some k \<Rightarrow>
             let a = OSPI_MAP_ADDR + 4 * of_nat k;
                 v = bus_load32 hw (h @ good_loads32 0 k) a
             in (spiram_error SPIRAM_ERR_MEMTEST32 s)
                  \<lparr>spiram_bad_addr := a, spiram_bad_pattern32 := v,
                   trace := h @ good_loads32 0 k @ [Load32 a v]\<rparr>)"

definition stores16 :: "event list" where
  "stores16 =
     map (\<lambda>i. Store16 (OSPI_MAP_ADDR + 2 * of_nat i) spiram_pattern16) [0..<MICROPY_HW_SPIRAM_SIZE div 2]"

definition good_loads16 :: "nat \<Rightarrow> nat \<Rightarrow> event list" where
  "good_loads16 i k =
     map (\<lambda>j. Load16 (OSPI_MAP_ADDR + 2 * of_nat j) spiram_pattern16) [i..<k]"

definition mismatch16_at :: "hardware \<Rightarrow> event list \<Rightarrow> nat \<Rightarrow> nat \<Rightarrow> bool" where
  "mismatch16_at hw h i k =
     (bus_load16 hw (h @ good_loads16 i k) (OSPI_MAP_ADDR + 2 * of_nat k) \<noteq> spiram_pattern16)"

definition first_mismatch16 :: "hardware \<Rightarrow> event list \<Rightarrow> nat option" where
  "first_mismatch16 hw h = find (mismatch16_at hw h 0) [0..<MICROPY_HW_SPIRAM_SIZE div 2]"

definition scan16 :: "hardware \<Rightarrow> state \<Rightarrow> state" where
  "scan16 hw s =
     (let h = trace s @ stores16
      in case first_mismatch16 hw h of
           None \<Rightarrow> s\<lparr>trace := h @ good_loads16 0 (MICROPY_HW_SPIRAM_SIZE div 2)\<rparr>
         | Some k \<Rightarrow>
             let a = OSPI_MAP_ADDR + 2 * of_nat k;
                 v = bus_load16 hw (h @ good_loads16 0 k) a
             in (spiram_error SPIRAM_ERR_MEMTEST16 s)
                  \<lparr>spiram_bad_addr := a, spiram_bad_pattern16 := v,
                   trace := h @ good_loads16 0 k @ [Load16 a v]\<rparr>)"

definition stores8 :: "event list" where
  "stores8 =
     map (\<lambda>i. Store8 (OSPI_MAP_ADDR + of_nat i) spiram_pattern8) [0..<MICROPY_HW_SPIRAM_SIZE]"

definition good_loads8 :: "nat \<Rightarrow> nat \<Rightarrow> event list" where
  "good_loads8 i k =
     map (\<lambda>j. Load8 (OSPI_MAP_ADDR + of_nat j) spiram_pattern8) [i..<k]"

definition mismatch8_at :: "hardware \<Rightarrow> event list \<Rightarrow> nat \<Rightarrow> nat \<Rightarrow> bool" where
  "mismatch8_at hw h i k =
     (bus_load8 hw (h @ good_loads8 i k) (OSPI_MAP_ADDR + of_nat k) \<noteq> spiram_pattern8)"

definition first_mismatch8 :: "hardware \<Rightarrow> event list \<Rightarrow> nat option" where
  "first_mismatch8 hw h = find (mismatch8_at hw h 0) [0..<MICROPY_HW_SPIRAM_SIZE]"

definition scan8 :: "hardware \<Rightarrow> state \<Rightarrow> state" where
  "scan8 hw s =
     (let h = trace s @ stores8
      in case first_mismatch8 hw h of
           None \<Rightarrow> s\<lparr>trace := h @ good_loads8 0 (MICROPY_HW_SPIRAM_SIZE)\<rparr>
         | Some k \<Rightarrow>
             let a = OSPI_MAP_ADDR + of_nat k;
                 v = bus_load8 hw (h @ good_loads8 0 k) a
             in (spiram_error SPIRAM_ERR_MEMTEST8 s)
                  \<lparr>spiram_bad_addr := a, spiram_bad_pattern8 := v,
                   trace := h @ good_loads8 0 k @ [Load8 a v]\<rparr>)"

subsection \<open>Reading a trace\<close>

text \<open>
  The events a function added to the trace, and predicates on single events, used to
  state what happened in a run and in which order.
\<close>

definition events_of :: "state \<Rightarrow> state \<Rightarrow> event list" where
  "events_of s s' = drop (length (trace s)) (trace s')"

fun failed :: "event \<Rightarrow> bool" where
  "failed (Hal c r) = (r \<noteq> HAL_OK)"
| "failed _ = False"

fun is_mpu :: "event \<Rightarrow> bool" where
  "is_mpu Mpu_config_start = True"
| "is_mpu (Mpu_config_region n a c) = True"
| "is_mpu Mpu_config_end = True"
| "is_mpu _ = False"

text \<open>
  The transactions that configure the memory mapping: a command whose operation type
  is the write or the read configuration, and the activation of the mapping.
\<close>

fun is_mapping_config :: "event \<Rightarrow> bool" where
  "is_mapping_config (Hal (OSPI_Command c) r) = (OperationType c \<noteq> HAL_OSPI_OPTYPE_COMMON_CFG)"
| "is_mapping_config (Hal (OSPI_MemoryMapped m) r) = True"
| "is_mapping_config _ = False"

text \<open>A command transaction issued on the bus, of whatever operation type.\<close>

fun is_transaction :: "event \<Rightarrow> bool" where
  "is_transaction (Hal (OSPI_Command c) r) = True"
| "is_transaction _ = False"

fun is_memory_access :: "event \<Rightarrow> bool" where
  "is_memory_access (Store8 a v) = True"
| "is_memory_access (Store16 a v) = True"
| "is_memory_access (Store32 a v) = True"
| "is_memory_access (Load8 a v) = True"
| "is_memory_access (Load16 a v) = True"
| "is_memory_access (Load32 a v) = True"
| "is_memory_access _ = False"

text \<open>A load from the window, of whatever width.\<close>

fun is_load :: "event \<Rightarrow> bool" where
  "is_load (Load8 a v) = True"
| "is_load (Load16 a v) = True"
| "is_load (Load32 a v) = True"
| "is_load _ = False"

text \<open>A load that did not return the pattern of its width.\<close>

fun mismatch :: "event \<Rightarrow> bool" where
  "mismatch (Load8 a v) = (v \<noteq> spiram_pattern8)"
| "mismatch (Load16 a v) = (v \<noteq> spiram_pattern16)"
| "mismatch (Load32 a v) = (v \<noteq> spiram_pattern32)"
| "mismatch _ = False"

text \<open>
  The MPU grants access to the window; the mapping is established (the activation
  call returned \<open>HAL_OK\<close>); the activation call failed.
\<close>

fun enables_window :: "event \<Rightarrow> bool" where
  "enables_window (Mpu_config_region MPU_REGION_QSPI2 a (MPU_CONFIG_SDRAM n)) = True"
| "enables_window _ = False"

fun maps_window :: "event \<Rightarrow> bool" where
  "maps_window (Hal (OSPI_MemoryMapped m) r) = (r = HAL_OK)"
| "maps_window _ = False"

fun mapping_failed :: "event \<Rightarrow> bool" where
  "mapping_failed (Hal (OSPI_MemoryMapped m) r) = (r \<noteq> HAL_OK)"
| "mapping_failed _ = False"

text \<open>The two operations of the memory protection configurator, as events.\<close>

definition block_all_events :: "event list" where
  "block_all_events =
     [Mpu_config_start,
      Mpu_config_region MPU_REGION_QSPI1 OSPI_MAP_ADDR (MPU_CONFIG_DISABLE 0x00 MPU_REGION_SIZE_256MB),
      Mpu_config_end]"

definition enable_window_events :: "event list" where
  "enable_window_events =
     [Mpu_config_start,
      Mpu_config_region MPU_REGION_QSPI1 OSPI_MAP_ADDR (MPU_CONFIG_DISABLE 0x00 MPU_REGION_SIZE_256MB),
      Mpu_config_region MPU_REGION_QSPI2 OSPI_MAP_ADDR (MPU_CONFIG_SDRAM MPU_REGION_SIZE_8MB),
      Mpu_config_end]"

text \<open>
  The statuses and values in a piece of trace are the answers of the hardware: each
  call's status, and each load's value, is what \<open>hw\<close> gives for the history before it.
\<close>

fun answer_ok :: "hardware \<Rightarrow> event list \<Rightarrow> event \<Rightarrow> bool" where
  "answer_ok hw h (Hal c r) = (r = hal_status hw h c)"
| "answer_ok hw h (Load8 a v) = (v = bus_load8 hw h a)"
| "answer_ok hw h (Load16 a v) = (v = bus_load16 hw h a)"
| "answer_ok hw h (Load32 a v) = (v = bus_load32 hw h a)"
| "answer_ok hw h _ = True"

fun answered :: "hardware \<Rightarrow> event list \<Rightarrow> event list \<Rightarrow> bool" where
  "answered hw h [] = True"
| "answered hw h (e # es) = (answer_ok hw h e \<and> answered hw (h @ [e]) es)"

text \<open>
  A command-only transaction: the instruction byte \<open>i\<close> on the lines \<open>m\<close>, no address
  phase and no data phase.
\<close>

definition command_only :: "ospi_instruction_mode \<Rightarrow> 32 word \<Rightarrow> OSPI_RegularCmdTypeDef \<Rightarrow> bool" where
  "command_only m i c =
     (OperationType c = HAL_OSPI_OPTYPE_COMMON_CFG \<and> InstructionMode c = m \<and> Instruction c = i
      \<and> AddressMode c = HAL_OSPI_ADDRESS_NONE \<and> DataMode c = HAL_OSPI_DATA_NONE)"

text \<open>
  The transactions of the clearing pass, for statuses \<open>r1 j\<close> (command) and \<open>r2 j\<close> (data)
  of block \<open>j\<close>: a quad write of 32 bytes at device address \<open>32 * j\<close>, and the bytes of
  eight words \<open>0xDEADBEEF\<close>.
\<close>

definition deadbeef_block :: "8 word list" where
  "deadbeef_block = concat (replicate 8 [0xEF, 0xBE, 0xAD, 0xDE])"

definition clear_events :: "(nat \<Rightarrow> HAL_StatusTypeDef) \<Rightarrow> (nat \<Rightarrow> HAL_StatusTypeDef) \<Rightarrow> nat \<Rightarrow> event list" where
  "clear_events r1 r2 j =
     [Hal (OSPI_Command (spiram_clear_cmd\<lparr>Address := of_nat (32 * j)\<rparr>)) (r1 j),
      Hal (OSPI_Transmit deadbeef_block) (r2 j)]"

text \<open>
  A quad transaction with address and data phase: instruction, address and data on
  four lines, for the instruction byte \<open>i\<close>, the device address \<open>a\<close> and \<open>n\<close> bytes.
\<close>

definition quad_transfer :: "32 word \<Rightarrow> 32 word \<Rightarrow> 32 word \<Rightarrow> OSPI_RegularCmdTypeDef \<Rightarrow> bool" where
  "quad_transfer i a n c =
     (OperationType c = HAL_OSPI_OPTYPE_COMMON_CFG
      \<and> InstructionMode c = HAL_OSPI_INSTRUCTION_4_LINES
      \<and> AddressMode c = HAL_OSPI_ADDRESS_4_LINES
      \<and> DataMode c = HAL_OSPI_DATA_4_LINES
      \<and> Instruction c = i \<and> Address c = a \<and> NbData c = n)"

subsection \<open>Concrete hardware, for the runs the claims name\<close>

text \<open>
  \<open>hw_good\<close>: every HAL call succeeds, the identifier read delivers the bytes of the
  README's sample output, and every load returns the pattern of its width.
  \<open>hw_mmap_fails\<close>: the same, but the activation of the memory mapping fails.
  \<open>hw_dead\<close>: the same as \<open>hw_good\<close>, but every load returns zero.
  \<open>hw_scenario2\<close>: the same as \<open>hw_good\<close>, but the 16-bit load at \<open>0x903E2070\<close> and the
  8-bit load at \<open>0x903E2071\<close> return zero.
\<close>

definition hw_good :: hardware where
  "hw_good =
     \<lparr>hal_status = (\<lambda>h c. HAL_OK),
      hal_received = (\<lambda>h. [0x0d, 0x5d, 0x52, 0xa2, 0x64, 0x31, 0x91, 0x31]),
      bus_load8 = (\<lambda>h a. spiram_pattern8),
      bus_load16 = (\<lambda>h a. spiram_pattern16),
      bus_load32 = (\<lambda>h a. spiram_pattern32)\<rparr>"

definition hw_mmap_fails :: hardware where
  "hw_mmap_fails =
     hw_good\<lparr>hal_status := (\<lambda>h c. case c of OSPI_MemoryMapped m \<Rightarrow> HAL_ERROR | _ \<Rightarrow> HAL_OK)\<rparr>"

definition hw_dead :: hardware where
  "hw_dead = hw_good\<lparr>bus_load8 := (\<lambda>h a. 0), bus_load16 := (\<lambda>h a. 0), bus_load32 := (\<lambda>h a. 0)\<rparr>"

definition hw_scenario2 :: hardware where
  "hw_scenario2 =
     hw_good\<lparr>bus_load8 := (\<lambda>h a. if a = 0x903E2071 then 0 else spiram_pattern8),
             bus_load16 := (\<lambda>h a. if a = 0x903E2070 then 0 else spiram_pattern16)\<rparr>"


section \<open>Properties\<close>

subsection \<open>Basic facts about the primitives\<close>

lemma emit_simps [simp]:
  "trace (emit e s) = trace s @ [e]"
  "spiram_err (emit e s) = spiram_err s"
  "spiram_id (emit e s) = spiram_id s"
  "spiram_bad_addr (emit e s) = spiram_bad_addr s"
  "spiram_bad_pattern8 (emit e s) = spiram_bad_pattern8 s"
  "spiram_bad_pattern16 (emit e s) = spiram_bad_pattern16 s"
  "spiram_bad_pattern32 (emit e s) = spiram_bad_pattern32 s"
  by (simp_all add: emit_def)

lemma spiram_error_simps [simp]:
  "trace (spiram_error n s) = trace s"
  "spiram_err (spiram_error n s) = (if spiram_err s = SPIRAM_ERR_OK then n else spiram_err s)"
  "spiram_id (spiram_error n s) = spiram_id s"
  "spiram_bad_addr (spiram_error n s) = spiram_bad_addr s"
  "spiram_bad_pattern8 (spiram_error n s) = spiram_bad_pattern8 s"
  "spiram_bad_pattern16 (spiram_error n s) = spiram_bad_pattern16 s"
  "spiram_bad_pattern32 (spiram_error n s) = spiram_bad_pattern32 s"
  by (simp_all add: spiram_error_def)

subsection \<open>The loops of the memory tests in closed form\<close>

lemma memtest32_write_eq:
  "memtest32_write i s =
     s\<lparr>trace := trace s @
        map (\<lambda>i. Store32 (OSPI_MAP_ADDR + 4 * of_nat i) spiram_pattern32) [i..<MICROPY_HW_SPIRAM_SIZE div 4]\<rparr>"
proof (induction i s rule: memtest32_write.induct)
  case (1 i s)
  show ?case
  proof (cases "i < MICROPY_HW_SPIRAM_SIZE div 4")
    case True
    then show ?thesis
      using "1.IH" [OF True]
      by (subst memtest32_write.simps) (simp add: upt_conv_Cons store32_def emit_def)
  next
    case False
    then show ?thesis
      by (subst memtest32_write.simps) simp
  qed
qed

lemma memtest32_read_eq:
  "memtest32_read hw i s =
     (case find (mismatch32_at hw (trace s) i) [i..<MICROPY_HW_SPIRAM_SIZE div 4] of
        None \<Rightarrow> s\<lparr>trace := trace s @ good_loads32 i (MICROPY_HW_SPIRAM_SIZE div 4)\<rparr>
      | Some k \<Rightarrow>
          (spiram_error SPIRAM_ERR_MEMTEST32 s)
            \<lparr>spiram_bad_addr := OSPI_MAP_ADDR + 4 * of_nat k,
             spiram_bad_pattern32 :=
               bus_load32 hw (trace s @ good_loads32 i k) (OSPI_MAP_ADDR + 4 * of_nat k),
             trace := trace s @ good_loads32 i k
                @ [Load32 (OSPI_MAP_ADDR + 4 * of_nat k)
                     (bus_load32 hw (trace s @ good_loads32 i k) (OSPI_MAP_ADDR + 4 * of_nat k))]\<rparr>)"
proof (induction hw i s rule: memtest32_read.induct)
  case (1 hw i s)
  let ?N = "MICROPY_HW_SPIRAM_SIZE div 4"
  show ?case
  proof (cases "i < ?N")
    case False
    then show ?thesis
      by (subst memtest32_read.simps) (simp add: good_loads32_def)
  next
    case True
    let ?a = "OSPI_MAP_ADDR + 4 * of_nat i"
    let ?v = "bus_load32 hw (trace s) ?a"
    let ?s1 = "emit (Load32 ?a ?v) s"
    show ?thesis
    proof (cases "?v = spiram_pattern32")
      case bad: False
      then have m: "mismatch32_at hw (trace s) i i"
        by (simp add: mismatch32_at_def good_loads32_def)
      show ?thesis
        using True bad m
        by (subst memtest32_read.simps)
           (simp add: upt_conv_Cons load32_def Let_def good_loads32_def spiram_error_def emit_def)
    next
      case good: True
      then have m: "\<not> mismatch32_at hw (trace s) i i"
        by (simp add: mismatch32_at_def good_loads32_def)
      have step: "memtest32_read hw i s = memtest32_read hw (i + 1) ?s1"
        using True good by (subst memtest32_read.simps) (simp add: load32_def Let_def)
      have ext: "trace ?s1 @ good_loads32 (i + 1) k = trace s @ good_loads32 i k" if "i < k" for k
        using that good by (simp add: good_loads32_def upt_conv_Cons)
      have fnd: "find (mismatch32_at hw (trace ?s1) (i + 1)) [i + 1..<?N]
                   = find (mismatch32_at hw (trace s) i) [i + 1..<?N]"
      proof (rule find_cong [OF refl])
        fix k assume "k \<in> set [i + 1..<?N]"
        then have "i < k" by simp
        from ext [OF this]
        show "mismatch32_at hw (trace ?s1) (i + 1) k = mismatch32_at hw (trace s) i k"
          by (simp only: mismatch32_at_def)
      qed
      have IH: "memtest32_read hw (i + 1) ?s1 =
        (case find (mismatch32_at hw (trace ?s1) (i + 1)) [i + 1..<?N] of
           None \<Rightarrow> ?s1\<lparr>trace := trace ?s1 @ good_loads32 (i + 1) ?N\<rparr>
         | Some k \<Rightarrow>
             (spiram_error SPIRAM_ERR_MEMTEST32 ?s1)
               \<lparr>spiram_bad_addr := OSPI_MAP_ADDR + 4 * of_nat k,
                spiram_bad_pattern32 :=
                  bus_load32 hw (trace ?s1 @ good_loads32 (i + 1) k) (OSPI_MAP_ADDR + 4 * of_nat k),
                trace := trace ?s1 @ good_loads32 (i + 1) k
                   @ [Load32 (OSPI_MAP_ADDR + 4 * of_nat k)
                        (bus_load32 hw (trace ?s1 @ good_loads32 (i + 1) k)
                           (OSPI_MAP_ADDR + 4 * of_nat k))]\<rparr>)"
        using "1.IH" [OF True, of "(?v, ?s1)" ?v ?s1] good by (simp add: load32_def Let_def)
      show ?thesis
      proof (cases "find (mismatch32_at hw (trace s) i) [i + 1..<?N]")
        case None
        then show ?thesis
          using True m step IH fnd ext [of ?N]
          by (simp add: upt_conv_Cons [of i ?N] emit_def del: emit_simps)
      next
        case (Some k)
        then have "k \<in> set [i + 1..<?N]" by (auto simp: find_Some_iff)
        then have "i < k" by simp
        then show ?thesis
          using Some True m step IH fnd ext [of k]
          by (simp add: upt_conv_Cons [of i ?N] emit_def spiram_error_def del: emit_simps)
      qed
    qed
  qed
qed

lemma spiram_memtest32_scan: "spiram_memtest32 hw s = scan32 hw s"
  by (simp add: spiram_memtest32_def memtest32_write_eq memtest32_read_eq scan32_def
        first_mismatch32_def stores32_def Let_def spiram_error_def split: option.split)

lemma memtest16_write_eq:
  "memtest16_write i s =
     s\<lparr>trace := trace s @
        map (\<lambda>i. Store16 (OSPI_MAP_ADDR + 2 * of_nat i) spiram_pattern16) [i..<MICROPY_HW_SPIRAM_SIZE div 2]\<rparr>"
proof (induction i s rule: memtest16_write.induct)
  case (1 i s)
  show ?case
  proof (cases "i < MICROPY_HW_SPIRAM_SIZE div 2")
    case True
    then show ?thesis
      using "1.IH" [OF True]
      by (subst memtest16_write.simps) (simp add: upt_conv_Cons store16_def emit_def)
  next
    case False
    then show ?thesis
      by (subst memtest16_write.simps) simp
  qed
qed

lemma memtest16_read_eq:
  "memtest16_read hw i s =
     (case find (mismatch16_at hw (trace s) i) [i..<MICROPY_HW_SPIRAM_SIZE div 2] of
        None \<Rightarrow> s\<lparr>trace := trace s @ good_loads16 i (MICROPY_HW_SPIRAM_SIZE div 2)\<rparr>
      | Some k \<Rightarrow>
          (spiram_error SPIRAM_ERR_MEMTEST16 s)
            \<lparr>spiram_bad_addr := OSPI_MAP_ADDR + 2 * of_nat k,
             spiram_bad_pattern16 :=
               bus_load16 hw (trace s @ good_loads16 i k) (OSPI_MAP_ADDR + 2 * of_nat k),
             trace := trace s @ good_loads16 i k
                @ [Load16 (OSPI_MAP_ADDR + 2 * of_nat k)
                     (bus_load16 hw (trace s @ good_loads16 i k) (OSPI_MAP_ADDR + 2 * of_nat k))]\<rparr>)"
proof (induction hw i s rule: memtest16_read.induct)
  case (1 hw i s)
  let ?N = "MICROPY_HW_SPIRAM_SIZE div 2"
  show ?case
  proof (cases "i < ?N")
    case False
    then show ?thesis
      by (subst memtest16_read.simps) (simp add: good_loads16_def)
  next
    case True
    let ?a = "OSPI_MAP_ADDR + 2 * of_nat i"
    let ?v = "bus_load16 hw (trace s) ?a"
    let ?s1 = "emit (Load16 ?a ?v) s"
    show ?thesis
    proof (cases "?v = spiram_pattern16")
      case bad: False
      then have m: "mismatch16_at hw (trace s) i i"
        by (simp add: mismatch16_at_def good_loads16_def)
      show ?thesis
        using True bad m
        by (subst memtest16_read.simps)
           (simp add: upt_conv_Cons load16_def Let_def good_loads16_def spiram_error_def emit_def)
    next
      case good: True
      then have m: "\<not> mismatch16_at hw (trace s) i i"
        by (simp add: mismatch16_at_def good_loads16_def)
      have step: "memtest16_read hw i s = memtest16_read hw (i + 1) ?s1"
        using True good by (subst memtest16_read.simps) (simp add: load16_def Let_def)
      have ext: "trace ?s1 @ good_loads16 (i + 1) k = trace s @ good_loads16 i k" if "i < k" for k
        using that good by (simp add: good_loads16_def upt_conv_Cons)
      have fnd: "find (mismatch16_at hw (trace ?s1) (i + 1)) [i + 1..<?N]
                   = find (mismatch16_at hw (trace s) i) [i + 1..<?N]"
      proof (rule find_cong [OF refl])
        fix k assume "k \<in> set [i + 1..<?N]"
        then have "i < k" by simp
        from ext [OF this]
        show "mismatch16_at hw (trace ?s1) (i + 1) k = mismatch16_at hw (trace s) i k"
          by (simp only: mismatch16_at_def)
      qed
      have IH: "memtest16_read hw (i + 1) ?s1 =
        (case find (mismatch16_at hw (trace ?s1) (i + 1)) [i + 1..<?N] of
           None \<Rightarrow> ?s1\<lparr>trace := trace ?s1 @ good_loads16 (i + 1) ?N\<rparr>
         | Some k \<Rightarrow>
             (spiram_error SPIRAM_ERR_MEMTEST16 ?s1)
               \<lparr>spiram_bad_addr := OSPI_MAP_ADDR + 2 * of_nat k,
                spiram_bad_pattern16 :=
                  bus_load16 hw (trace ?s1 @ good_loads16 (i + 1) k) (OSPI_MAP_ADDR + 2 * of_nat k),
                trace := trace ?s1 @ good_loads16 (i + 1) k
                   @ [Load16 (OSPI_MAP_ADDR + 2 * of_nat k)
                        (bus_load16 hw (trace ?s1 @ good_loads16 (i + 1) k)
                           (OSPI_MAP_ADDR + 2 * of_nat k))]\<rparr>)"
        using "1.IH" [OF True, of "(?v, ?s1)" ?v ?s1] good by (simp add: load16_def Let_def)
      show ?thesis
      proof (cases "find (mismatch16_at hw (trace s) i) [i + 1..<?N]")
        case None
        then show ?thesis
          using True m step IH fnd ext [of ?N]
          by (simp add: upt_conv_Cons [of i ?N] emit_def del: emit_simps)
      next
        case (Some k)
        then have "k \<in> set [i + 1..<?N]" by (auto simp: find_Some_iff)
        then have "i < k" by simp
        then show ?thesis
          using Some True m step IH fnd ext [of k]
          by (simp add: upt_conv_Cons [of i ?N] emit_def spiram_error_def del: emit_simps)
      qed
    qed
  qed
qed

lemma spiram_memtest16_scan: "spiram_memtest16 hw s = scan16 hw s"
  by (simp add: spiram_memtest16_def memtest16_write_eq memtest16_read_eq scan16_def
        first_mismatch16_def stores16_def Let_def spiram_error_def split: option.split)

lemma memtest8_write_eq:
  "memtest8_write i s =
     s\<lparr>trace := trace s @
        map (\<lambda>i. Store8 (OSPI_MAP_ADDR + of_nat i) spiram_pattern8) [i..<MICROPY_HW_SPIRAM_SIZE]\<rparr>"
proof (induction i s rule: memtest8_write.induct)
  case (1 i s)
  show ?case
  proof (cases "i < MICROPY_HW_SPIRAM_SIZE")
    case True
    then show ?thesis
      using "1.IH" [OF True]
      by (subst memtest8_write.simps) (simp add: upt_conv_Cons store8_def emit_def)
  next
    case False
    then show ?thesis
      by (subst memtest8_write.simps) simp
  qed
qed

lemma memtest8_read_eq:
  "memtest8_read hw i s =
     (case find (mismatch8_at hw (trace s) i) [i..<MICROPY_HW_SPIRAM_SIZE] of
        None \<Rightarrow> s\<lparr>trace := trace s @ good_loads8 i (MICROPY_HW_SPIRAM_SIZE)\<rparr>
      | Some k \<Rightarrow>
          (spiram_error SPIRAM_ERR_MEMTEST8 s)
            \<lparr>spiram_bad_addr := OSPI_MAP_ADDR + of_nat k,
             spiram_bad_pattern8 :=
               bus_load8 hw (trace s @ good_loads8 i k) (OSPI_MAP_ADDR + of_nat k),
             trace := trace s @ good_loads8 i k
                @ [Load8 (OSPI_MAP_ADDR + of_nat k)
                     (bus_load8 hw (trace s @ good_loads8 i k) (OSPI_MAP_ADDR + of_nat k))]\<rparr>)"
proof (induction hw i s rule: memtest8_read.induct)
  case (1 hw i s)
  let ?N = "MICROPY_HW_SPIRAM_SIZE"
  show ?case
  proof (cases "i < ?N")
    case False
    then show ?thesis
      by (subst memtest8_read.simps) (simp add: good_loads8_def)
  next
    case True
    let ?a = "OSPI_MAP_ADDR + of_nat i"
    let ?v = "bus_load8 hw (trace s) ?a"
    let ?s1 = "emit (Load8 ?a ?v) s"
    show ?thesis
    proof (cases "?v = spiram_pattern8")
      case bad: False
      then have m: "mismatch8_at hw (trace s) i i"
        by (simp add: mismatch8_at_def good_loads8_def)
      show ?thesis
        using True bad m
        by (subst memtest8_read.simps)
           (simp add: upt_conv_Cons load8_def Let_def good_loads8_def spiram_error_def emit_def)
    next
      case good: True
      then have m: "\<not> mismatch8_at hw (trace s) i i"
        by (simp add: mismatch8_at_def good_loads8_def)
      have step: "memtest8_read hw i s = memtest8_read hw (i + 1) ?s1"
        using True good by (subst memtest8_read.simps) (simp add: load8_def Let_def)
      have ext: "trace ?s1 @ good_loads8 (i + 1) k = trace s @ good_loads8 i k" if "i < k" for k
        using that good by (simp add: good_loads8_def upt_conv_Cons)
      have fnd: "find (mismatch8_at hw (trace ?s1) (i + 1)) [i + 1..<?N]
                   = find (mismatch8_at hw (trace s) i) [i + 1..<?N]"
      proof (rule find_cong [OF refl])
        fix k assume "k \<in> set [i + 1..<?N]"
        then have "i < k" by simp
        from ext [OF this]
        show "mismatch8_at hw (trace ?s1) (i + 1) k = mismatch8_at hw (trace s) i k"
          by (simp only: mismatch8_at_def)
      qed
      have IH: "memtest8_read hw (i + 1) ?s1 =
        (case find (mismatch8_at hw (trace ?s1) (i + 1)) [i + 1..<?N] of
           None \<Rightarrow> ?s1\<lparr>trace := trace ?s1 @ good_loads8 (i + 1) ?N\<rparr>
         | Some k \<Rightarrow>
             (spiram_error SPIRAM_ERR_MEMTEST8 ?s1)
               \<lparr>spiram_bad_addr := OSPI_MAP_ADDR + of_nat k,
                spiram_bad_pattern8 :=
                  bus_load8 hw (trace ?s1 @ good_loads8 (i + 1) k) (OSPI_MAP_ADDR + of_nat k),
                trace := trace ?s1 @ good_loads8 (i + 1) k
                   @ [Load8 (OSPI_MAP_ADDR + of_nat k)
                        (bus_load8 hw (trace ?s1 @ good_loads8 (i + 1) k)
                           (OSPI_MAP_ADDR + of_nat k))]\<rparr>)"
        using "1.IH" [OF True, of "(?v, ?s1)" ?v ?s1] good by (simp add: load8_def Let_def)
      show ?thesis
      proof (cases "find (mismatch8_at hw (trace s) i) [i + 1..<?N]")
        case None
        then show ?thesis
          using True m step IH fnd ext [of ?N]
          by (simp add: upt_conv_Cons [of i ?N] emit_def del: emit_simps)
      next
        case (Some k)
        then have "k \<in> set [i + 1..<?N]" by (auto simp: find_Some_iff)
        then have "i < k" by simp
        then show ?thesis
          using Some True m step IH fnd ext [of k]
          by (simp add: upt_conv_Cons [of i ?N] emit_def spiram_error_def del: emit_simps)
      qed
    qed
  qed
qed

lemma spiram_memtest8_scan: "spiram_memtest8 hw s = scan8 hw s"
  by (simp add: spiram_memtest8_def memtest8_write_eq memtest8_read_eq scan8_def
        first_mismatch8_def stores8_def Let_def spiram_error_def split: option.split)

subsection \<open>HAL calls and traces\<close>

lemma hal_eq: "hal hw c s = (hal_status hw (trace s) c, emit (Hal c (hal_status hw (trace s) c)) s)"
  by (simp add: hal_def Let_def)

lemma check_simps [simp]:
  "trace (check n (r, s)) = trace s"
  "spiram_err (check n (r, s)) = (if spiram_err s = SPIRAM_ERR_OK \<and> r \<noteq> HAL_OK then n else spiram_err s)"
  "spiram_id (check n (r, s)) = spiram_id s"
  "spiram_bad_addr (check n (r, s)) = spiram_bad_addr s"
  "spiram_bad_pattern8 (check n (r, s)) = spiram_bad_pattern8 s"
  "spiram_bad_pattern16 (check n (r, s)) = spiram_bad_pattern16 s"
  "spiram_bad_pattern32 (check n (r, s)) = spiram_bad_pattern32 s"
  by (simp_all add: check_def)

lemma answered_append:
  "answered hw h (xs @ ys) = (answered hw h xs \<and> answered hw (h @ xs) ys)"
  by (induction xs arbitrary: h) auto

lemma answered_hal:
  "answered hw h es \<Longrightarrow> Hal c r \<in> set es \<Longrightarrow> \<exists>h'. r = hal_status hw h' c"
  by (induction es arbitrary: h) auto

lemma events_of_append: "trace s' = trace s @ es \<Longrightarrow> events_of s s' = es"
  by (simp add: events_of_def)


subsection \<open>The functions without loops\<close>

lemma ospi_init_shape:
  "\<exists>r0 r1.
     trace (ospi_init hw s) =
       trace s @ ospi_init_setup @ [Hal OSPI_DeInit r0, Hal (OSPI_Init hospi1_Init) r1]
     \<and> spiram_err (ospi_init hw s) =
         (if spiram_err s = SPIRAM_ERR_OK \<and> r1 \<noteq> HAL_OK then SPIRAM_ERR_OSPI_INIT else spiram_err s)"
  by (simp add: ospi_init_def hal_eq Let_def)

lemma ospi_init_quiet:
  "\<exists>es. trace (ospi_init hw s) = trace s @ es
     \<and> \<not> list_ex is_mpu es \<and> \<not> list_ex is_mapping_config es"
  by (simp add: ospi_init_def hal_eq Let_def ospi_init_setup_def)

lemma ospi_init_ok:
  "(\<And>h c. hal_status hw h (OSPI_Init c) = HAL_OK) \<Longrightarrow> spiram_err (ospi_init hw s) = spiram_err s"
  by (simp add: ospi_init_def hal_eq Let_def)

lemma spiram_quad_on_shape:
  "\<exists>c1 c2 c3 c4 cid c5 r1 r2 r3 r4 r5 r6 r7.
     trace (spiram_quad_on hw s) =
       trace s @ [Hal (OSPI_Command c1) r1, Hal (OSPI_Command c2) r2, Hal (OSPI_Command c3) r3,
                  Hal (OSPI_Command c4) r4, Hal (OSPI_Command cid) r5, Hal OSPI_Receive r6,
                  Hal (OSPI_Command c5) r7]
     \<and> answered hw (trace s) (events_of s (spiram_quad_on hw s))
     \<and> command_only HAL_OSPI_INSTRUCTION_4_LINES SRAM_CMD_RST_EN c1
     \<and> command_only HAL_OSPI_INSTRUCTION_4_LINES SRAM_CMD_RST c2
     \<and> command_only HAL_OSPI_INSTRUCTION_1_LINE SRAM_CMD_RST_EN c3
     \<and> command_only HAL_OSPI_INSTRUCTION_1_LINE SRAM_CMD_RST c4
     \<and> OperationType cid = HAL_OSPI_OPTYPE_COMMON_CFG
     \<and> InstructionMode cid = HAL_OSPI_INSTRUCTION_1_LINE
     \<and> Instruction cid = SRAM_CMD_READ_ID
     \<and> DataMode cid = HAL_OSPI_DATA_1_LINE
     \<and> NbData cid = 8
     \<and> command_only HAL_OSPI_INSTRUCTION_1_LINE SRAM_CMD_QUAD_ON c5
     \<and> spiram_err (spiram_quad_on hw s) =
          (if spiram_err s = SPIRAM_ERR_OK then
             if r1 \<noteq> HAL_OK then SPIRAM_ERR_QSPI_RST_EN
             else if r2 \<noteq> HAL_OK then SPIRAM_ERR_QSPI_RST
             else if r3 \<noteq> HAL_OK then SPIRAM_ERR_SPI_RSTEN
             else if r4 \<noteq> HAL_OK then SPIRAM_ERR_SPI_RST
             else if r5 \<noteq> HAL_OK then SPIRAM_ERR_READID_CMD
             else if r6 \<noteq> HAL_OK then SPIRAM_ERR_READID_DTA
             else if r7 \<noteq> HAL_OK then SPIRAM_ERR_QUAD_ON
             else SPIRAM_ERR_OK
           else spiram_err s)"
  by (simp add: spiram_quad_on_def spiram_read_id_def hal_receive_def hal_eq Let_def
        command_only_def events_of_def sizeof_spiram_id_def)

lemma spiram_quad_on_quiet:
  "\<exists>es. trace (spiram_quad_on hw s) = trace s @ es
     \<and> \<not> list_ex is_mpu es \<and> \<not> list_ex is_mapping_config es
     \<and> list_ex is_transaction es"
proof -
  from spiram_quad_on_shape [of hw s] obtain c1 c2 c3 c4 cid c5 r1 r2 r3 r4 r5 r6 r7 where
    tr: "trace (spiram_quad_on hw s) =
       trace s @ [Hal (OSPI_Command c1) r1, Hal (OSPI_Command c2) r2, Hal (OSPI_Command c3) r3,
                  Hal (OSPI_Command c4) r4, Hal (OSPI_Command cid) r5, Hal OSPI_Receive r6,
                  Hal (OSPI_Command c5) r7]"
    and c: "command_only HAL_OSPI_INSTRUCTION_4_LINES SRAM_CMD_RST_EN c1"
      "command_only HAL_OSPI_INSTRUCTION_4_LINES SRAM_CMD_RST c2"
      "command_only HAL_OSPI_INSTRUCTION_1_LINE SRAM_CMD_RST_EN c3"
      "command_only HAL_OSPI_INSTRUCTION_1_LINE SRAM_CMD_RST c4"
      "OperationType cid = HAL_OSPI_OPTYPE_COMMON_CFG"
      "command_only HAL_OSPI_INSTRUCTION_1_LINE SRAM_CMD_QUAD_ON c5"
    by blast
  let ?es = "[Hal (OSPI_Command c1) r1, Hal (OSPI_Command c2) r2, Hal (OSPI_Command c3) r3,
                  Hal (OSPI_Command c4) r4, Hal (OSPI_Command cid) r5, Hal OSPI_Receive r6,
                  Hal (OSPI_Command c5) r7]"
  have "\<not> list_ex is_mpu ?es" "\<not> list_ex is_mapping_config ?es" "list_ex is_transaction ?es"
    using c by (simp_all add: command_only_def)
  with tr show ?thesis by blast
qed

lemma spiram_quad_on_ok:
  "(\<And>h a. hal_status hw h (OSPI_Command a) = HAL_OK) \<Longrightarrow> (\<And>h. hal_status hw h OSPI_Receive = HAL_OK)
     \<Longrightarrow> spiram_err (spiram_quad_on hw s) = spiram_err s"
  by (simp add: spiram_quad_on_def spiram_read_id_def hal_receive_def hal_eq Let_def)

lemma ospi_mmap_shape:
  "\<exists>wcfg rcfg mcfg r1 r2 r3.
     trace (ospi_mmap hw s) =
       trace s @ block_all_events
         @ [Hal (OSPI_Command wcfg) r1, Hal (OSPI_Command rcfg) r2, Hal (OSPI_MemoryMapped mcfg) r3]
         @ enable_window_events
     \<and> answered hw (trace s) (events_of s (ospi_mmap hw s))
     \<and> OperationType wcfg = HAL_OSPI_OPTYPE_WRITE_CFG
     \<and> InstructionMode wcfg = HAL_OSPI_INSTRUCTION_4_LINES
     \<and> AddressMode wcfg = HAL_OSPI_ADDRESS_4_LINES
     \<and> DataMode wcfg = HAL_OSPI_DATA_4_LINES
     \<and> DQSMode wcfg = HAL_OSPI_DQS_ENABLE
     \<and> Instruction wcfg = SRAM_CMD_QUAD_WRITE
     \<and> OperationType rcfg = HAL_OSPI_OPTYPE_READ_CFG
     \<and> InstructionMode rcfg = HAL_OSPI_INSTRUCTION_4_LINES
     \<and> AddressMode rcfg = HAL_OSPI_ADDRESS_4_LINES
     \<and> DataMode rcfg = HAL_OSPI_DATA_4_LINES
     \<and> DQSMode rcfg = HAL_OSPI_DQS_DISABLE
     \<and> DummyCycles rcfg = 6
     \<and> Instruction rcfg = SRAM_CMD_QUAD_READ
     \<and> TimeOutActivation mcfg = HAL_OSPI_TIMEOUT_COUNTER_ENABLE
     \<and> spiram_err (ospi_mmap hw s) =
          (if spiram_err s = SPIRAM_ERR_OK then
             if r1 \<noteq> HAL_OK then SPIRAM_ERR_OSPI_WRITE_CONFIG
             else if r2 \<noteq> HAL_OK then SPIRAM_ERR_OSPI_READ_CONFIG
             else if r3 \<noteq> HAL_OK then SPIRAM_ERR_OSPI_MMAP
             else SPIRAM_ERR_OK
           else spiram_err s)"
  by (simp add: ospi_mmap_def ospi_mpu_disable_all_def ospi_mpu_enable_mapped_def hal_eq Let_def
        block_all_events_def enable_window_events_def events_of_def)

lemma ospi_mmap_fails:
  "(\<And>h a. hal_status hw h (OSPI_Command a) = HAL_OK)
     \<Longrightarrow> (\<And>h m. hal_status hw h (OSPI_MemoryMapped m) \<noteq> HAL_OK)
     \<Longrightarrow> spiram_err (ospi_mmap hw s) =
           (if spiram_err s = SPIRAM_ERR_OK then SPIRAM_ERR_OSPI_MMAP else spiram_err s)"
  by (simp add: ospi_mmap_def ospi_mpu_disable_all_def ospi_mpu_enable_mapped_def hal_eq Let_def)

lemma spiram_read_shape:
  "case spiram_read hw addr len dest s of (out, s') \<Rightarrow>
     trace s' = trace s @ events_of s s'
     \<and> answered hw (trace s) (events_of s s')
     \<and> ((\<exists>c r. quad_transfer SRAM_CMD_QUAD_READ addr len c \<and> r \<noteq> HAL_OK
            \<and> events_of s s' = [Hal (OSPI_Command c) r]
            \<and> out = Inl (RuntimeError ''HAL_OSPI_Command''))
         \<or> (\<exists>c r. quad_transfer SRAM_CMD_QUAD_READ addr len c
            \<and> events_of s s' = [Hal (OSPI_Command c) HAL_OK, Hal OSPI_Receive r]
            \<and> out = (if r \<noteq> HAL_OK then Inl (RuntimeError ''HAL_OSPI_Receive'')
                      else Inr (fill_buffer dest (hal_received hw (trace s @ [Hal (OSPI_Command c) HAL_OK]))))))
     \<and> spiram_err s' = spiram_err s \<and> spiram_id s' = spiram_id s
     \<and> spiram_bad_addr s' = spiram_bad_addr s"
  by (simp add: spiram_read_def hal_receive_def hal_eq Let_def events_of_def quad_transfer_def
         split: prod.split)

lemma spiram_write_shape:
  "case spiram_write hw addr len src s of (out, s') \<Rightarrow>
     trace s' = trace s @ events_of s s'
     \<and> answered hw (trace s) (events_of s s')
     \<and> ((\<exists>c r. quad_transfer SRAM_CMD_QUAD_WRITE addr len c \<and> r \<noteq> HAL_OK
            \<and> events_of s s' = [Hal (OSPI_Command c) r]
            \<and> out = Inl (RuntimeError ''HAL_OSPI_Command''))
         \<or> (\<exists>c r. quad_transfer SRAM_CMD_QUAD_WRITE addr len c
            \<and> events_of s s' = [Hal (OSPI_Command c) HAL_OK, Hal (OSPI_Transmit src) r]
            \<and> out = (if r \<noteq> HAL_OK then Inl (RuntimeError ''HAL_OSPI_Transmit'') else Inr ())))
     \<and> spiram_err s' = spiram_err s \<and> spiram_id s' = spiram_id s
     \<and> spiram_bad_addr s' = spiram_bad_addr s"
  by (simp add: spiram_write_def hal_eq Let_def events_of_def quad_transfer_def
         split: prod.split)


subsection \<open>The clearing loop\<close>

lemma le_bytes32_deadbeef: "le_bytes32 0xDEADBEEF = [0xEF, 0xBE, 0xAD, 0xDE]"
  by (simp add: le_bytes32_def drop_bit_eq_div)

lemma spiram_clear_payload: "concat (map le_bytes32 spiram_clear_src) = deadbeef_block"
  by (simp add: spiram_clear_src_def deadbeef_block_def le_bytes32_deadbeef)

lemma deadbeef_block_length: "length deadbeef_block = 32"
  by (simp add: deadbeef_block_def eval_nat_numeral)

lemma spiram_size_blocks: "MICROPY_HW_SPIRAM_SIZE = 32 * 262144"
  by (simp add: MICROPY_HW_SPIRAM_SIZE_def)

lemma blocks_tile: "concat (map (\<lambda>j. [32 * j..<32 * j + 32]) [0..<n]) = [0..<32 * n]"
proof (induction n)
  case 0
  show ?case by simp
next
  case (Suc n)
  have "[0..<32 * Suc n] = [0..<32 * n] @ [32 * n..<32 * n + 32]"
    using upt_add_eq_append [of 0 "32 * n" 32] by (simp add: add.commute)
  with Suc show ?case by simp
qed

lemma spiram_clear_step:
  assumes "i < 262144"
  shows "spiram_clear_loop hw (32 * i) s =
     spiram_clear_loop hw (32 * Suc i)
       (check SPIRAM_ERR_CLEAR (hal hw (OSPI_Transmit deadbeef_block)
          (check SPIRAM_ERR_CLEAR (hal hw (OSPI_Command (spiram_clear_cmd\<lparr>Address := of_nat (32 * i)\<rparr>)) s))))"
proof -
  have "32 * i < MICROPY_HW_SPIRAM_SIZE" using assms by (simp add: spiram_size_blocks)
  then show ?thesis
    by (subst spiram_clear_loop.simps)
       (simp add: Let_def spiram_clear_payload, simp add: spiram_clear_src_def add.commute)
qed

lemma spiram_clear_stop: "spiram_clear_loop hw (32 * 262144) s = s"
  by (subst spiram_clear_loop.simps) (simp add: spiram_size_blocks)

lemma spiram_clear_loop_shape:
  "i \<le> 262144 \<Longrightarrow>
   \<exists>r1 r2.
     trace (spiram_clear_loop hw (32 * i) s) = trace s @ concat (map (clear_events r1 r2) [i..<262144])
     \<and> answered hw (trace s) (concat (map (clear_events r1 r2) [i..<262144]))
     \<and> spiram_err (spiram_clear_loop hw (32 * i) s) =
         (if spiram_err s = SPIRAM_ERR_OK \<and> (\<exists>j. i \<le> j \<and> j < 262144 \<and> \<not> (r1 j = HAL_OK \<and> r2 j = HAL_OK))
          then SPIRAM_ERR_CLEAR else spiram_err s)
     \<and> spiram_id (spiram_clear_loop hw (32 * i) s) = spiram_id s
     \<and> spiram_bad_addr (spiram_clear_loop hw (32 * i) s) = spiram_bad_addr s
     \<and> spiram_bad_pattern8 (spiram_clear_loop hw (32 * i) s) = spiram_bad_pattern8 s
     \<and> spiram_bad_pattern16 (spiram_clear_loop hw (32 * i) s) = spiram_bad_pattern16 s
     \<and> spiram_bad_pattern32 (spiram_clear_loop hw (32 * i) s) = spiram_bad_pattern32 s"
proof (induction "262144 - i" arbitrary: i s)
  case 0
  then have "i = 262144" by simp
  then show ?case using spiram_clear_stop [of hw s] by simp
next
  case (Suc n)
  then have lt: "i < 262144" and le: "Suc i \<le> 262144" and n: "n = 262144 - Suc i" by simp_all
  let ?c = "OSPI_Command (spiram_clear_cmd\<lparr>Address := of_nat (32 * i)\<rparr>)"
  let ?ra = "hal_status hw (trace s) ?c"
  let ?s1 = "check SPIRAM_ERR_CLEAR (hal hw ?c s)"
  let ?rb = "hal_status hw (trace ?s1) (OSPI_Transmit deadbeef_block)"
  let ?s2 = "check SPIRAM_ERR_CLEAR (hal hw (OSPI_Transmit deadbeef_block) ?s1)"
  let ?f = "spiram_clear_loop hw (32 * Suc i) ?s2"
  from Suc.hyps(1) [OF n le, of ?s2] obtain r1 r2 where
    tr: "trace ?f = trace ?s2 @ concat (map (clear_events r1 r2) [Suc i..<262144])"
    and an: "answered hw (trace ?s2) (concat (map (clear_events r1 r2) [Suc i..<262144]))"
    and er: "spiram_err ?f =
         (if spiram_err ?s2 = SPIRAM_ERR_OK \<and> (\<exists>j. Suc i \<le> j \<and> j < 262144 \<and> \<not> (r1 j = HAL_OK \<and> r2 j = HAL_OK))
          then SPIRAM_ERR_CLEAR else spiram_err ?s2)"
    and fr: "spiram_id ?f = spiram_id ?s2" "spiram_bad_addr ?f = spiram_bad_addr ?s2"
      "spiram_bad_pattern8 ?f = spiram_bad_pattern8 ?s2"
      "spiram_bad_pattern16 ?f = spiram_bad_pattern16 ?s2"
      "spiram_bad_pattern32 ?f = spiram_bad_pattern32 ?s2"
    by blast
  define q1 where "q1 = r1(i := ?ra)"
  define q2 where "q2 = r2(i := ?rb)"
  have same: "map (clear_events q1 q2) [Suc i..<262144] = map (clear_events r1 r2) [Suc i..<262144]"
    by (rule map_cong) (auto simp: clear_events_def q1_def q2_def)
  have here: "clear_events q1 q2 i = [Hal ?c ?ra, Hal (OSPI_Transmit deadbeef_block) ?rb]"
    by (simp add: clear_events_def q1_def q2_def)
  have s2tr: "trace ?s2 = trace s @ [Hal ?c ?ra, Hal (OSPI_Transmit deadbeef_block) ?rb]"
    by (simp add: hal_eq)
  have s2er: "spiram_err ?s2 =
      (if spiram_err s = SPIRAM_ERR_OK \<and> \<not> (?ra = HAL_OK \<and> ?rb = HAL_OK) then SPIRAM_ERR_CLEAR else spiram_err s)"
    by (auto simp: hal_eq)
  have s2fr: "spiram_id ?s2 = spiram_id s" "spiram_bad_addr ?s2 = spiram_bad_addr s"
      "spiram_bad_pattern8 ?s2 = spiram_bad_pattern8 s"
      "spiram_bad_pattern16 ?s2 = spiram_bad_pattern16 s"
      "spiram_bad_pattern32 ?s2 = spiram_bad_pattern32 s"
    by (simp_all add: hal_eq)
  have step: "spiram_clear_loop hw (32 * i) s = ?f"
    by (rule spiram_clear_step [OF lt])
  have ex: "(\<exists>j. i \<le> j \<and> j < 262144 \<and> \<not> (q1 j = HAL_OK \<and> q2 j = HAL_OK))
      = (\<not> (?ra = HAL_OK \<and> ?rb = HAL_OK) \<or> (\<exists>j. Suc i \<le> j \<and> j < 262144 \<and> \<not> (r1 j = HAL_OK \<and> r2 j = HAL_OK)))"
    (is "?L = ?R")
  proof
    assume ?L
    then obtain j where j: "i \<le> j" "j < 262144" "\<not> (q1 j = HAL_OK \<and> q2 j = HAL_OK)" by blast
    show ?R
    proof (cases "j = i")
      case True
      with j show ?thesis by (simp add: q1_def q2_def)
    next
      case False
      with j have "Suc i \<le> j" "\<not> (r1 j = HAL_OK \<and> r2 j = HAL_OK)" by (auto simp: q1_def q2_def)
      with j show ?thesis by blast
    qed
  next
    assume ?R
    then show ?L
    proof
      assume "\<not> (?ra = HAL_OK \<and> ?rb = HAL_OK)"
      then have "\<not> (q1 i = HAL_OK \<and> q2 i = HAL_OK)" by (simp add: q1_def q2_def)
      with lt show ?L by blast
    next
      assume "\<exists>j. Suc i \<le> j \<and> j < 262144 \<and> \<not> (r1 j = HAL_OK \<and> r2 j = HAL_OK)"
      then obtain j where j: "Suc i \<le> j" "j < 262144" "\<not> (r1 j = HAL_OK \<and> r2 j = HAL_OK)" by blast
      then have "\<not> (q1 j = HAL_OK \<and> q2 j = HAL_OK)" by (auto simp: q1_def q2_def)
      with j show ?L by (metis Suc_leD)
    qed
  qed
  have upt: "[i..<262144] = i # [Suc i..<262144]" using lt by (rule upt_conv_Cons)
  have T: "trace (spiram_clear_loop hw (32 * i) s) = trace s @ concat (map (clear_events q1 q2) [i..<262144])"
    by (simp only: step tr s2tr upt list.map concat.simps same here) simp
  have A: "answered hw (trace s) (concat (map (clear_events q1 q2) [i..<262144]))"
    using an by (simp only: upt list.map concat.simps same here answered_append s2tr) (simp add: hal_eq)
  have E: "spiram_err (spiram_clear_loop hw (32 * i) s) =
         (if spiram_err s = SPIRAM_ERR_OK \<and> (\<exists>j. i \<le> j \<and> j < 262144 \<and> \<not> (q1 j = HAL_OK \<and> q2 j = HAL_OK))
          then SPIRAM_ERR_CLEAR else spiram_err s)"
    unfolding step er s2er ex by auto
  have F: "spiram_id (spiram_clear_loop hw (32 * i) s) = spiram_id s"
    "spiram_bad_addr (spiram_clear_loop hw (32 * i) s) = spiram_bad_addr s"
    "spiram_bad_pattern8 (spiram_clear_loop hw (32 * i) s) = spiram_bad_pattern8 s"
    "spiram_bad_pattern16 (spiram_clear_loop hw (32 * i) s) = spiram_bad_pattern16 s"
    "spiram_bad_pattern32 (spiram_clear_loop hw (32 * i) s) = spiram_bad_pattern32 s"
    by (simp_all only: step fr s2fr)
  show ?case
    by (intro exI [of _ q1] exI [of _ q2] conjI T A E F)
qed

lemma spiram_clear_shape:
  "\<exists>r1 r2.
     trace (spiram_clear hw s) = trace s @ concat (map (clear_events r1 r2) [0..<262144])
     \<and> answered hw (trace s) (concat (map (clear_events r1 r2) [0..<262144]))
     \<and> spiram_err (spiram_clear hw s) =
         (if spiram_err s = SPIRAM_ERR_OK \<and> (\<exists>j<262144. \<not> (r1 j = HAL_OK \<and> r2 j = HAL_OK))
          then SPIRAM_ERR_CLEAR else spiram_err s)
     \<and> spiram_id (spiram_clear hw s) = spiram_id s
     \<and> spiram_bad_addr (spiram_clear hw s) = spiram_bad_addr s
     \<and> spiram_bad_pattern8 (spiram_clear hw s) = spiram_bad_pattern8 s
     \<and> spiram_bad_pattern16 (spiram_clear hw s) = spiram_bad_pattern16 s
     \<and> spiram_bad_pattern32 (spiram_clear hw s) = spiram_bad_pattern32 s"
  using spiram_clear_loop_shape [of 0 hw s] by (simp add: spiram_clear_def)

lemma spiram_clear_ok:
  assumes c: "\<And>h a. hal_status hw h (OSPI_Command a) = HAL_OK"
    and t: "\<And>h b. hal_status hw h (OSPI_Transmit b) = HAL_OK"
  shows "spiram_err (spiram_clear hw s) = spiram_err s"
proof -
  from spiram_clear_shape [of hw s] obtain r1 r2 where
    an: "answered hw (trace s) (concat (map (clear_events r1 r2) [0..<262144]))"
    and er: "spiram_err (spiram_clear hw s) =
         (if spiram_err s = SPIRAM_ERR_OK \<and> (\<exists>j<262144. \<not> (r1 j = HAL_OK \<and> r2 j = HAL_OK))
          then SPIRAM_ERR_CLEAR else spiram_err s)"
    by blast
  have "r1 j = HAL_OK \<and> r2 j = HAL_OK" if "j < 262144" for j
  proof -
    have "set (clear_events r1 r2 j) \<subseteq> set (concat (map (clear_events r1 r2) [0..<262144]))"
      using that by auto
    then have m: "Hal (OSPI_Command (spiram_clear_cmd\<lparr>Address := of_nat (32 * j)\<rparr>)) (r1 j)
          \<in> set (concat (map (clear_events r1 r2) [0..<262144]))"
        "Hal (OSPI_Transmit deadbeef_block) (r2 j) \<in> set (concat (map (clear_events r1 r2) [0..<262144]))"
      by (auto simp: clear_events_def)
    from answered_hal [OF an m(1)] answered_hal [OF an m(2)] show ?thesis
      by (auto simp: c t)
  qed
  then show ?thesis unfolding er by auto
qed

lemma spiram_clear_quiet:
  "\<exists>es. trace (spiram_clear hw s) = trace s @ es
     \<and> \<not> list_ex is_mpu es \<and> \<not> list_ex is_mapping_config es"
proof -
  from spiram_clear_shape [of hw s] obtain r1 r2 where
    tr: "trace (spiram_clear hw s) = trace s @ concat (map (clear_events r1 r2) [0..<262144])"
    by blast
  have "\<not> list_ex is_mpu (concat (map (clear_events r1 r2) [0..<262144]))"
    "\<not> list_ex is_mapping_config (concat (map (clear_events r1 r2) [0..<262144]))"
    by (auto simp: list_ex_iff clear_events_def spiram_clear_cmd_def)
  with tr show ?thesis by blast
qed


subsection \<open>Summaries of the scans and of the self-test\<close>

lemma stores32_facts:
  "list_all is_memory_access stores32" "\<not> list_ex mismatch stores32"
  by (auto simp: stores32_def list_all_iff list_ex_iff)

lemma good_loads32_facts:
  "list_all is_memory_access (good_loads32 i k)" "\<not> list_ex mismatch (good_loads32 i k)"
  by (auto simp: good_loads32_def list_all_iff list_ex_iff)

lemma scan32_summary:
  "\<exists>es. trace (scan32 hw s) = trace s @ es
     \<and> list_all is_memory_access es
     \<and> spiram_err (scan32 hw s) =
         (if spiram_err s = SPIRAM_ERR_OK \<and> list_ex mismatch es then SPIRAM_ERR_MEMTEST32
          else spiram_err s)
     \<and> spiram_id (scan32 hw s) = spiram_id s"
proof (cases "first_mismatch32 hw (trace s @ stores32)")
  case None
  let ?es = "stores32 @ good_loads32 0 (MICROPY_HW_SPIRAM_SIZE div 4)"
  have "trace (scan32 hw s) = trace s @ ?es" "spiram_err (scan32 hw s) = spiram_err s"
    "spiram_id (scan32 hw s) = spiram_id s"
    using None by (simp_all add: scan32_def)
  moreover have "list_all is_memory_access ?es" "\<not> list_ex mismatch ?es"
    using stores32_facts good_loads32_facts by simp_all
  ultimately show ?thesis by (intro exI [of _ ?es]) simp
next
  case (Some k)
  let ?h = "trace s @ stores32"
  let ?a = "OSPI_MAP_ADDR + 4 * of_nat k"
  let ?v = "bus_load32 hw (?h @ good_loads32 0 k) ?a"
  let ?es = "stores32 @ good_loads32 0 k @ [Load32 ?a ?v]"
  from Some have "mismatch32_at hw ?h 0 k"
    by (auto simp: first_mismatch32_def find_Some_iff)
  then have bad: "?v \<noteq> spiram_pattern32" by (simp add: mismatch32_at_def)
  have "trace (scan32 hw s) = trace s @ ?es"
    "spiram_err (scan32 hw s) = (if spiram_err s = SPIRAM_ERR_OK then SPIRAM_ERR_MEMTEST32 else spiram_err s)"
    "spiram_id (scan32 hw s) = spiram_id s"
    using Some by (simp_all add: scan32_def Let_def)
  moreover have "list_all is_memory_access ?es" "list_ex mismatch ?es"
    using stores32_facts good_loads32_facts bad by simp_all
  ultimately show ?thesis by (intro exI [of _ ?es]) simp
qed

lemma stores16_facts:
  "list_all is_memory_access stores16" "\<not> list_ex mismatch stores16"
  by (auto simp: stores16_def list_all_iff list_ex_iff)

lemma good_loads16_facts:
  "list_all is_memory_access (good_loads16 i k)" "\<not> list_ex mismatch (good_loads16 i k)"
  by (auto simp: good_loads16_def list_all_iff list_ex_iff)

lemma scan16_summary:
  "\<exists>es. trace (scan16 hw s) = trace s @ es
     \<and> list_all is_memory_access es
     \<and> spiram_err (scan16 hw s) =
         (if spiram_err s = SPIRAM_ERR_OK \<and> list_ex mismatch es then SPIRAM_ERR_MEMTEST16
          else spiram_err s)
     \<and> spiram_id (scan16 hw s) = spiram_id s"
proof (cases "first_mismatch16 hw (trace s @ stores16)")
  case None
  let ?es = "stores16 @ good_loads16 0 (MICROPY_HW_SPIRAM_SIZE div 2)"
  have "trace (scan16 hw s) = trace s @ ?es" "spiram_err (scan16 hw s) = spiram_err s"
    "spiram_id (scan16 hw s) = spiram_id s"
    using None by (simp_all add: scan16_def)
  moreover have "list_all is_memory_access ?es" "\<not> list_ex mismatch ?es"
    using stores16_facts good_loads16_facts by simp_all
  ultimately show ?thesis by (intro exI [of _ ?es]) simp
next
  case (Some k)
  let ?h = "trace s @ stores16"
  let ?a = "OSPI_MAP_ADDR + 2 * of_nat k"
  let ?v = "bus_load16 hw (?h @ good_loads16 0 k) ?a"
  let ?es = "stores16 @ good_loads16 0 k @ [Load16 ?a ?v]"
  from Some have "mismatch16_at hw ?h 0 k"
    by (auto simp: first_mismatch16_def find_Some_iff)
  then have bad: "?v \<noteq> spiram_pattern16" by (simp add: mismatch16_at_def)
  have "trace (scan16 hw s) = trace s @ ?es"
    "spiram_err (scan16 hw s) = (if spiram_err s = SPIRAM_ERR_OK then SPIRAM_ERR_MEMTEST16 else spiram_err s)"
    "spiram_id (scan16 hw s) = spiram_id s"
    using Some by (simp_all add: scan16_def Let_def)
  moreover have "list_all is_memory_access ?es" "list_ex mismatch ?es"
    using stores16_facts good_loads16_facts bad by simp_all
  ultimately show ?thesis by (intro exI [of _ ?es]) simp
qed

lemma stores8_facts:
  "list_all is_memory_access stores8" "\<not> list_ex mismatch stores8"
  by (auto simp: stores8_def list_all_iff list_ex_iff)

lemma good_loads8_facts:
  "list_all is_memory_access (good_loads8 i k)" "\<not> list_ex mismatch (good_loads8 i k)"
  by (auto simp: good_loads8_def list_all_iff list_ex_iff)

lemma scan8_summary:
  "\<exists>es. trace (scan8 hw s) = trace s @ es
     \<and> list_all is_memory_access es
     \<and> spiram_err (scan8 hw s) =
         (if spiram_err s = SPIRAM_ERR_OK \<and> list_ex mismatch es then SPIRAM_ERR_MEMTEST8
          else spiram_err s)
     \<and> spiram_id (scan8 hw s) = spiram_id s"
proof (cases "first_mismatch8 hw (trace s @ stores8)")
  case None
  let ?es = "stores8 @ good_loads8 0 (MICROPY_HW_SPIRAM_SIZE)"
  have "trace (scan8 hw s) = trace s @ ?es" "spiram_err (scan8 hw s) = spiram_err s"
    "spiram_id (scan8 hw s) = spiram_id s"
    using None by (simp_all add: scan8_def)
  moreover have "list_all is_memory_access ?es" "\<not> list_ex mismatch ?es"
    using stores8_facts good_loads8_facts by simp_all
  ultimately show ?thesis by (intro exI [of _ ?es]) simp
next
  case (Some k)
  let ?h = "trace s @ stores8"
  let ?a = "OSPI_MAP_ADDR + of_nat k"
  let ?v = "bus_load8 hw (?h @ good_loads8 0 k) ?a"
  let ?es = "stores8 @ good_loads8 0 k @ [Load8 ?a ?v]"
  from Some have "mismatch8_at hw ?h 0 k"
    by (auto simp: first_mismatch8_def find_Some_iff)
  then have bad: "?v \<noteq> spiram_pattern8" by (simp add: mismatch8_at_def)
  have "trace (scan8 hw s) = trace s @ ?es"
    "spiram_err (scan8 hw s) = (if spiram_err s = SPIRAM_ERR_OK then SPIRAM_ERR_MEMTEST8 else spiram_err s)"
    "spiram_id (scan8 hw s) = spiram_id s"
    using Some by (simp_all add: scan8_def Let_def)
  moreover have "list_all is_memory_access ?es" "list_ex mismatch ?es"
    using stores8_facts good_loads8_facts bad by simp_all
  ultimately show ?thesis by (intro exI [of _ ?es]) simp
qed

lemma spiram_test_eq:
  "spiram_test hw fast s =
     (spiram_err (spiram_error SPIRAM_ERR_MEMTEST_PASS (scan8 hw (scan16 hw (scan32 hw s))))
        = SPIRAM_ERR_MEMTEST_PASS,
      spiram_error SPIRAM_ERR_MEMTEST_PASS (scan8 hw (scan16 hw (scan32 hw s))))"
  by (simp add: spiram_test_def Let_def spiram_memtest32_scan spiram_memtest16_scan
        spiram_memtest8_scan)

lemma spiram_test_summary:
  "\<exists>es. trace (snd (spiram_test hw fast s)) = trace s @ es
     \<and> list_all is_memory_access es
     \<and> spiram_err (snd (spiram_test hw fast s)) =
         (if spiram_err s = SPIRAM_ERR_OK then
            if list_ex mismatch es then spiram_err (snd (spiram_test hw fast s))
            else SPIRAM_ERR_MEMTEST_PASS
          else spiram_err s)
     \<and> (spiram_err s = SPIRAM_ERR_OK \<and> list_ex mismatch es \<longrightarrow>
           spiram_err (snd (spiram_test hw fast s))
             \<in> {SPIRAM_ERR_MEMTEST32, SPIRAM_ERR_MEMTEST16, SPIRAM_ERR_MEMTEST8})
     \<and> fst (spiram_test hw fast s) =
         (spiram_err (snd (spiram_test hw fast s)) = SPIRAM_ERR_MEMTEST_PASS)
     \<and> spiram_id (snd (spiram_test hw fast s)) = spiram_id s"
proof -
  let ?s1 = "scan32 hw s" let ?s2 = "scan16 hw ?s1" let ?s3 = "scan8 hw ?s2"
  from scan32_summary [of hw s] obtain e1 where
    1: "trace ?s1 = trace s @ e1" "list_all is_memory_access e1"
       "spiram_err ?s1 = (if spiram_err s = SPIRAM_ERR_OK \<and> list_ex mismatch e1 then SPIRAM_ERR_MEMTEST32 else spiram_err s)"
       "spiram_id ?s1 = spiram_id s"
    by blast
  from scan16_summary [of hw ?s1] obtain e2 where
    2: "trace ?s2 = trace ?s1 @ e2" "list_all is_memory_access e2"
       "spiram_err ?s2 = (if spiram_err ?s1 = SPIRAM_ERR_OK \<and> list_ex mismatch e2 then SPIRAM_ERR_MEMTEST16 else spiram_err ?s1)"
       "spiram_id ?s2 = spiram_id ?s1"
    by blast
  from scan8_summary [of hw ?s2] obtain e3 where
    3: "trace ?s3 = trace ?s2 @ e3" "list_all is_memory_access e3"
       "spiram_err ?s3 = (if spiram_err ?s2 = SPIRAM_ERR_OK \<and> list_ex mismatch e3 then SPIRAM_ERR_MEMTEST8 else spiram_err ?s2)"
       "spiram_id ?s3 = spiram_id ?s2"
    by blast
  show ?thesis
    by (intro exI [of _ "e1 @ e2 @ e3"]) (simp add: spiram_test_eq 1 2 3)
qed

lemma spiram_test_sticky:
  "spiram_err s \<noteq> SPIRAM_ERR_OK \<Longrightarrow> spiram_err (snd (spiram_test hw fast s)) = spiram_err s"
  using spiram_test_summary [of hw fast s] by auto




subsection \<open>The whole of bring-up\<close>

lemma spiram_init_eq:
  "spiram_init hw s =
     (True, snd (spiram_test hw False
        (ospi_mmap hw (spiram_clear hw (spiram_quad_on hw (ospi_init hw s))))))"
  by (simp add: spiram_init_def Let_def)

lemma maps_window_config: "maps_window e \<Longrightarrow> is_mapping_config e"
  by (cases e rule: maps_window.cases) simp_all

lemma mapping_failed_config: "mapping_failed e \<Longrightarrow> is_mapping_config e"
  by (cases e rule: mapping_failed.cases) simp_all

lemma memory_access_not_maps: "is_memory_access e \<Longrightarrow> \<not> maps_window e"
  by (cases e rule: is_memory_access.cases) simp_all

lemma memory_access_not_failed: "is_memory_access e \<Longrightarrow> \<not> mapping_failed e"
  by (cases e rule: is_memory_access.cases) simp_all

lemma bringup_quiet:
  "\<exists>pre. trace (spiram_clear hw (spiram_quad_on hw (ospi_init hw s))) = trace s @ pre
     \<and> \<not> list_ex is_mpu pre \<and> \<not> list_ex is_mapping_config pre
     \<and> list_ex is_transaction pre"
proof -
  let ?s1 = "ospi_init hw s" let ?s2 = "spiram_quad_on hw ?s1" let ?s3 = "spiram_clear hw ?s2"
  from ospi_init_quiet [of hw s] obtain e1 where
    1: "trace ?s1 = trace s @ e1" "\<not> list_ex is_mpu e1" "\<not> list_ex is_mapping_config e1" by blast
  from spiram_quad_on_quiet [of hw ?s1] obtain e2 where
    2: "trace ?s2 = trace ?s1 @ e2" "\<not> list_ex is_mpu e2" "\<not> list_ex is_mapping_config e2"
       "list_ex is_transaction e2" by blast
  from spiram_clear_quiet [of hw ?s2] obtain e3 where
    3: "trace ?s3 = trace ?s2 @ e3" "\<not> list_ex is_mpu e3" "\<not> list_ex is_mapping_config e3" by blast
  show ?thesis
    by (intro exI [of _ "e1 @ e2 @ e3"]) (simp add: 1 2 3)
qed

lemma bringup_never_passes:
  assumes "spiram_err s \<noteq> SPIRAM_ERR_MEMTEST_PASS"
  shows "spiram_err (spiram_clear hw (spiram_quad_on hw (ospi_init hw s))) \<noteq> SPIRAM_ERR_MEMTEST_PASS"
proof -
  have 1: "spiram_err (ospi_init hw s) \<noteq> SPIRAM_ERR_MEMTEST_PASS"
    using ospi_init_shape [of hw s] assms by (auto split: if_splits)
  have 2: "spiram_err (spiram_quad_on hw (ospi_init hw s)) \<noteq> SPIRAM_ERR_MEMTEST_PASS"
    using spiram_quad_on_shape [of hw "ospi_init hw s"] 1 by (auto split: if_splits)
  show ?thesis
    using spiram_clear_shape [of hw "spiram_quad_on hw (ospi_init hw s)"] 2 by (auto split: if_splits)
qed

lemma spiram_init_shape:
  "\<exists>pre wcfg rcfg mcfg r1 r2 r3 post.
     trace (snd (spiram_init hw s)) =
       trace s @ pre @ block_all_events
         @ [Hal (OSPI_Command wcfg) r1, Hal (OSPI_Command rcfg) r2, Hal (OSPI_MemoryMapped mcfg) r3]
         @ enable_window_events @ post
     \<and> r3 = hal_status hw
              (trace s @ pre @ block_all_events @ [Hal (OSPI_Command wcfg) r1, Hal (OSPI_Command rcfg) r2])
              (OSPI_MemoryMapped mcfg)
     \<and> \<not> list_ex is_mpu pre \<and> \<not> list_ex is_mapping_config pre
     \<and> list_ex is_transaction pre
     \<and> OperationType wcfg = HAL_OSPI_OPTYPE_WRITE_CFG
     \<and> OperationType rcfg = HAL_OSPI_OPTYPE_READ_CFG
     \<and> list_all is_memory_access post"
proof -
  let ?s3 = "spiram_clear hw (spiram_quad_on hw (ospi_init hw s))"
  let ?s4 = "ospi_mmap hw ?s3"
  from bringup_quiet [of hw s] obtain pre where
    p: "trace ?s3 = trace s @ pre" "\<not> list_ex is_mpu pre" "\<not> list_ex is_mapping_config pre"
       "list_ex is_transaction pre"
    by blast
  from ospi_mmap_shape [of hw ?s3] obtain wcfg rcfg mcfg r1 r2 r3 where
    m: "trace ?s4 = trace ?s3 @ block_all_events
         @ [Hal (OSPI_Command wcfg) r1, Hal (OSPI_Command rcfg) r2, Hal (OSPI_MemoryMapped mcfg) r3]
         @ enable_window_events"
    and a: "answered hw (trace ?s3) (events_of ?s3 ?s4)"
    and o: "OperationType wcfg = HAL_OSPI_OPTYPE_WRITE_CFG" "OperationType rcfg = HAL_OSPI_OPTYPE_READ_CFG"
    by blast
  from m have ev: "events_of ?s3 ?s4 = block_all_events
         @ [Hal (OSPI_Command wcfg) r1, Hal (OSPI_Command rcfg) r2, Hal (OSPI_MemoryMapped mcfg) r3]
         @ enable_window_events"
    by (rule events_of_append)
  from a have r3: "r3 = hal_status hw
              (trace s @ pre @ block_all_events @ [Hal (OSPI_Command wcfg) r1, Hal (OSPI_Command rcfg) r2])
              (OSPI_MemoryMapped mcfg)"
    unfolding ev answered_append p by simp
  from spiram_test_summary [of hw False ?s4] obtain post where
    t: "trace (snd (spiram_test hw False ?s4)) = trace ?s4 @ post" "list_all is_memory_access post"
    by blast
  have tr: "trace (snd (spiram_init hw s)) =
       trace s @ pre @ block_all_events
         @ [Hal (OSPI_Command wcfg) r1, Hal (OSPI_Command rcfg) r2, Hal (OSPI_MemoryMapped mcfg) r3]
         @ enable_window_events @ post"
    by (simp add: spiram_init_eq t m p)
  show ?thesis
    by (intro exI conjI, rule tr, rule r3, rule p(2), rule p(3), rule p(4), rule o(1), rule o(2),
        rule t(2))
qed

lemma mapping_failure_recorded:
  assumes ok: "spiram_err s = SPIRAM_ERR_OK"
    and f: "list_ex mapping_failed (events_of s (snd (spiram_init hw s)))"
  shows "spiram_err (snd (spiram_init hw s)) \<noteq> SPIRAM_ERR_OK
       \<and> spiram_err (snd (spiram_init hw s)) \<noteq> SPIRAM_ERR_MEMTEST_PASS"
proof -
  let ?s3 = "spiram_clear hw (spiram_quad_on hw (ospi_init hw s))"
  let ?s4 = "ospi_mmap hw ?s3"
  from bringup_quiet [of hw s] obtain pre where
    p: "trace ?s3 = trace s @ pre" "\<not> list_ex is_mapping_config pre"
    by blast
  from ospi_mmap_shape [of hw ?s3] obtain wcfg rcfg mcfg r1 r2 r3 where
    m: "trace ?s4 = trace ?s3 @ block_all_events
         @ [Hal (OSPI_Command wcfg) r1, Hal (OSPI_Command rcfg) r2, Hal (OSPI_MemoryMapped mcfg) r3]
         @ enable_window_events"
    and e: "spiram_err ?s4 =
          (if spiram_err ?s3 = SPIRAM_ERR_OK then
             if r1 \<noteq> HAL_OK then SPIRAM_ERR_OSPI_WRITE_CONFIG
             else if r2 \<noteq> HAL_OK then SPIRAM_ERR_OSPI_READ_CONFIG
             else if r3 \<noteq> HAL_OK then SPIRAM_ERR_OSPI_MMAP
             else SPIRAM_ERR_OK
           else spiram_err ?s3)"
    by blast
  from spiram_test_summary [of hw False ?s4] obtain post where
    t: "trace (snd (spiram_test hw False ?s4)) = trace ?s4 @ post" "list_all is_memory_access post"
    by blast
  have ev: "events_of s (snd (spiram_init hw s)) = pre @ block_all_events
         @ [Hal (OSPI_Command wcfg) r1, Hal (OSPI_Command rcfg) r2, Hal (OSPI_MemoryMapped mcfg) r3]
         @ enable_window_events @ post"
    by (rule events_of_append) (simp add: spiram_init_eq t m p)
  have "\<not> list_ex mapping_failed pre"
    using p(2) by (auto simp: list_ex_iff dest: mapping_failed_config)
  moreover have "\<not> list_ex mapping_failed post"
    using t(2) by (auto simp: list_ex_iff list_all_iff dest: memory_access_not_failed)
  ultimately have r3: "r3 \<noteq> HAL_OK"
    using f unfolding ev by (simp add: block_all_events_def enable_window_events_def)
  have s3: "spiram_err ?s3 \<noteq> SPIRAM_ERR_MEMTEST_PASS"
    using ok by (intro bringup_never_passes) simp
  have s4: "spiram_err ?s4 \<noteq> SPIRAM_ERR_OK" "spiram_err ?s4 \<noteq> SPIRAM_ERR_MEMTEST_PASS"
    using e r3 s3 by (auto split: if_splits)
  then show ?thesis
    by (simp add: spiram_init_eq spiram_test_sticky)
qed


subsection \<open>The concrete hardware and its runs\<close>

lemma find_upt_first:
  "k < n \<Longrightarrow> P k \<Longrightarrow> (\<And>j. j < k \<Longrightarrow> \<not> P j) \<Longrightarrow> find P [0..<n] = Some k"
  by (auto simp: find_Some_iff intro!: exI [of _ k])

lemma window_addr_inj:
  assumes "j < 2 ^ 32" "k < 2 ^ 32"
  shows "(OSPI_MAP_ADDR + of_nat j = OSPI_MAP_ADDR + (of_nat k :: 32 word)) = (j = k)"
proof -
  have "(of_nat j = (of_nat k :: 32 word)) = (take_bit 32 j = take_bit 32 k)"
    by (simp only: word_of_nat_eq_iff) simp
  also have "\<dots> = (j = k)"
    using assms by (simp add: take_bit_nat_eq_self)
  finally show ?thesis by simp
qed

lemma window_sizes:
  "MICROPY_HW_SPIRAM_SIZE = 8388608"
  "MICROPY_HW_SPIRAM_SIZE div 2 = 4194304"
  "MICROPY_HW_SPIRAM_SIZE div 4 = 2097152"
  by (simp_all add: MICROPY_HW_SPIRAM_SIZE_def)

lemma scenario2_addr16:
  assumes "k < MICROPY_HW_SPIRAM_SIZE div 2"
  shows "(OSPI_MAP_ADDR + 2 * of_nat k = (0x903E2070 :: 32 word)) = (k = 2035768)"
proof -
  have c: "(0x903E2070 :: 32 word) = OSPI_MAP_ADDR + of_nat (2 * 2035768)"
    by (simp add: OSPI_MAP_ADDR_def OCTOSPI1_BASE_def)
  have "(OSPI_MAP_ADDR + 2 * of_nat k = (0x903E2070 :: 32 word))
      = (OSPI_MAP_ADDR + of_nat (2 * k) = OSPI_MAP_ADDR + (of_nat (2 * 2035768) :: 32 word))"
    by (simp only: c) simp
  also have "\<dots> = (2 * k = 2 * 2035768)"
    using assms by (intro window_addr_inj) (simp_all add: window_sizes)
  finally show ?thesis by simp
qed

lemma scenario2_addr8:
  assumes "k < MICROPY_HW_SPIRAM_SIZE"
  shows "(OSPI_MAP_ADDR + of_nat k = (0x903E2071 :: 32 word)) = (k = 4071537)"
proof -
  have c: "(0x903E2071 :: 32 word) = OSPI_MAP_ADDR + of_nat 4071537"
    by (simp add: OSPI_MAP_ADDR_def OCTOSPI1_BASE_def)
  have "(OSPI_MAP_ADDR + of_nat k = (0x903E2071 :: 32 word))
      = (OSPI_MAP_ADDR + of_nat k = OSPI_MAP_ADDR + (of_nat 4071537 :: 32 word))"
    by (simp only: c)
  also have "\<dots> = (k = 4071537)"
    using assms by (intro window_addr_inj) (simp_all add: window_sizes)
  finally show ?thesis .
qed

lemma hw_loads [simp]:
  "bus_load8 hw_good h a = spiram_pattern8"
  "bus_load16 hw_good h a = spiram_pattern16"
  "bus_load32 hw_good h a = spiram_pattern32"
  "bus_load8 hw_dead h a = 0"
  "bus_load16 hw_dead h a = 0"
  "bus_load32 hw_dead h a = 0"
  "bus_load8 hw_scenario2 h a = (if a = 0x903E2071 then 0 else spiram_pattern8)"
  "bus_load16 hw_scenario2 h a = (if a = 0x903E2070 then 0 else spiram_pattern16)"
  "bus_load32 hw_scenario2 h a = spiram_pattern32"
  by (simp_all add: hw_good_def hw_dead_def hw_scenario2_def)

lemma patterns_nonzero:
  "spiram_pattern8 \<noteq> 0" "spiram_pattern16 \<noteq> 0" "spiram_pattern32 \<noteq> 0"
  by (simp_all add: spiram_pattern8_def spiram_pattern16_def spiram_pattern32_def)

lemma hw_good_first_mismatch [simp]:
  "first_mismatch32 hw_good h = None"
  "first_mismatch16 hw_good h = None"
  "first_mismatch8 hw_good h = None"
  by (simp_all add: first_mismatch32_def first_mismatch16_def first_mismatch8_def
        mismatch32_at_def mismatch16_at_def mismatch8_at_def find_None_iff)

lemma hw_dead_first_mismatch32 [simp]: "first_mismatch32 hw_dead h = Some 0"
  unfolding first_mismatch32_def
  by (rule find_upt_first) (use patterns_nonzero in \<open>simp_all add: mismatch32_at_def window_sizes\<close>)

lemma hw_scenario2_first_mismatch [simp]:
  "first_mismatch32 hw_scenario2 h = None"
  "first_mismatch16 hw_scenario2 h = Some 2035768"
  "first_mismatch8 hw_scenario2 h = Some 4071537"
proof -
  show "first_mismatch32 hw_scenario2 h = None"
    by (simp add: first_mismatch32_def mismatch32_at_def find_None_iff)
  show "first_mismatch16 hw_scenario2 h = Some 2035768"
    unfolding first_mismatch16_def
  proof (rule find_upt_first)
    show "2035768 < MICROPY_HW_SPIRAM_SIZE div 2" by (simp add: window_sizes)
    then show "mismatch16_at hw_scenario2 h 0 2035768"
      using patterns_nonzero by (simp add: mismatch16_at_def scenario2_addr16 del: of_nat_numeral)
    fix j :: nat assume "j < 2035768"
    then have "j < MICROPY_HW_SPIRAM_SIZE div 2" "j \<noteq> 2035768" by (simp_all add: window_sizes)
    then show "\<not> mismatch16_at hw_scenario2 h 0 j"
      by (simp add: mismatch16_at_def scenario2_addr16)
  qed
  show "first_mismatch8 hw_scenario2 h = Some 4071537"
    unfolding first_mismatch8_def
  proof (rule find_upt_first)
    show "4071537 < MICROPY_HW_SPIRAM_SIZE" by (simp add: window_sizes)
    then show "mismatch8_at hw_scenario2 h 0 4071537"
      using patterns_nonzero by (simp add: mismatch8_at_def scenario2_addr8 del: of_nat_numeral)
    fix j :: nat assume "j < 4071537"
    then have "j < MICROPY_HW_SPIRAM_SIZE" "j \<noteq> 4071537" by (simp_all add: window_sizes)
    then show "\<not> mismatch8_at hw_scenario2 h 0 j"
      by (simp add: mismatch8_at_def scenario2_addr8)
  qed
qed

lemma hw_mmap_fails_status [simp]:
  "hal_status hw_mmap_fails h (OSPI_Init c) = HAL_OK"
  "hal_status hw_mmap_fails h (OSPI_Command a) = HAL_OK"
  "hal_status hw_mmap_fails h OSPI_Receive = HAL_OK"
  "hal_status hw_mmap_fails h (OSPI_Transmit b) = HAL_OK"
  "hal_status hw_mmap_fails h (OSPI_MemoryMapped m) = HAL_ERROR"
  by (simp_all add: hw_mmap_fails_def hw_good_def)

lemma mmap_fails_run_err:
  "spiram_err (snd (spiram_init hw_mmap_fails initial_state)) = SPIRAM_ERR_OSPI_MMAP"
proof -
  let ?hw = hw_mmap_fails
  let ?s3 = "spiram_clear ?hw (spiram_quad_on ?hw (ospi_init ?hw initial_state))"
  have "spiram_err ?s3 = SPIRAM_ERR_OK"
    by (simp add: spiram_clear_ok spiram_quad_on_ok ospi_init_ok initial_state_def)
  then have "spiram_err (ospi_mmap ?hw ?s3) = SPIRAM_ERR_OSPI_MMAP"
    by (simp add: ospi_mmap_fails)
  then show ?thesis
    by (simp add: spiram_init_eq spiram_test_sticky)
qed

lemma mmap_fails_run_trace:
  "list_ex mapping_failed (trace (snd (spiram_init hw_mmap_fails initial_state)))
   \<and> list_ex enables_window (trace (snd (spiram_init hw_mmap_fails initial_state)))
   \<and> \<not> list_ex maps_window (trace (snd (spiram_init hw_mmap_fails initial_state)))
   \<and> list_ex is_transaction
        (takeWhile (\<lambda>e. \<not> is_mpu e) (trace (snd (spiram_init hw_mmap_fails initial_state))))"
proof -
  from spiram_init_shape [of hw_mmap_fails initial_state]
  obtain pre wcfg rcfg mcfg r1 r2 r3 post where
    tr: "trace (snd (spiram_init hw_mmap_fails initial_state)) =
       trace initial_state @ pre @ block_all_events
         @ [Hal (OSPI_Command wcfg) r1, Hal (OSPI_Command rcfg) r2, Hal (OSPI_MemoryMapped mcfg) r3]
         @ enable_window_events @ post"
    and r3: "r3 = hal_status hw_mmap_fails
              (trace initial_state @ pre @ block_all_events @ [Hal (OSPI_Command wcfg) r1, Hal (OSPI_Command rcfg) r2])
              (OSPI_MemoryMapped mcfg)"
    and pre: "\<not> list_ex is_mapping_config pre"
    and quiet: "\<not> list_ex is_mpu pre"
    and tx: "list_ex is_transaction pre"
    and post: "list_all is_memory_access post"
    by blast
  from quiet have "takeWhile (\<lambda>e. \<not> is_mpu e) (pre @ block_all_events @ rest) = pre" for rest
    by (simp add: takeWhile_append2 list_ex_iff block_all_events_def)
  with tx have before: "list_ex is_transaction
        (takeWhile (\<lambda>e. \<not> is_mpu e) (pre @ block_all_events @ rest))" for rest
    by simp
  from r3 have r3e: "r3 = HAL_ERROR" by simp
  from pre have "\<not> list_ex maps_window pre"
    by (auto simp: list_ex_iff dest: maps_window_config)
  moreover from post have "\<not> list_ex maps_window post"
    by (auto simp: list_ex_iff list_all_iff dest: memory_access_not_maps)
  ultimately have "list_ex mapping_failed (trace (snd (spiram_init hw_mmap_fails initial_state)))
   \<and> list_ex enables_window (trace (snd (spiram_init hw_mmap_fails initial_state)))
   \<and> \<not> list_ex maps_window (trace (snd (spiram_init hw_mmap_fails initial_state)))"
    unfolding tr r3e by (simp add: initial_state_def block_all_events_def enable_window_events_def)
  moreover have "list_ex is_transaction
        (takeWhile (\<lambda>e. \<not> is_mpu e) (trace (snd (spiram_init hw_mmap_fails initial_state))))"
    unfolding tr using before by (simp add: initial_state_def)
  ultimately show ?thesis by blast
qed

lemma scenario2_run:
  "spiram_err (spiram_memtest16 hw_scenario2 (spiram_memtest32 hw_scenario2 initial_state)) = SPIRAM_ERR_MEMTEST16
   \<and> spiram_bad_addr (spiram_memtest16 hw_scenario2 (spiram_memtest32 hw_scenario2 initial_state)) = 0x903E2070
   \<and> spiram_bad_pattern16 (spiram_memtest16 hw_scenario2 (spiram_memtest32 hw_scenario2 initial_state)) = 0x0000
   \<and> spiram_err (snd (spiram_test hw_scenario2 False initial_state)) = SPIRAM_ERR_MEMTEST16
   \<and> spiram_bad_pattern16 (snd (spiram_test hw_scenario2 False initial_state)) = 0x0000
   \<and> spiram_bad_addr (snd (spiram_test hw_scenario2 False initial_state)) = 0x903E2071
   \<and> spiram_bad_addr (snd (spiram_test hw_scenario2 False initial_state)) \<noteq> 0x903E2070"
  by (simp add: spiram_test_eq spiram_memtest32_scan spiram_memtest16_scan scan32_def scan16_def
        scan8_def Let_def initial_state_def OSPI_MAP_ADDR_def OCTOSPI1_BASE_def)



lemma scenario2_report:
  "last (spiram_dmesg (snd (spiram_test hw_scenario2 False initial_state)))
     = (''spiram memtest16 fail, address 0x%08x written 0x%04x read 0x%04x\<newline>'',
        [0x903E2071, 0x5A5A, 0x0000])"
  using scenario2_run by (simp add: spiram_dmesg_def spiram_pattern16_def)

subsection \<open>What every run of the self-test does on the bus\<close>

lemma scan32_events:
  "\<exists>r. trace (scan32 hw s) = trace s @ stores32 @ r \<and> list_all is_load r \<and> r \<noteq> []"
proof (cases "first_mismatch32 hw (trace s @ stores32)")
  case None
  have "0 < MICROPY_HW_SPIRAM_SIZE div 4" by (simp add: window_sizes)
  then have "good_loads32 0 (MICROPY_HW_SPIRAM_SIZE div 4) \<noteq> []" by (simp add: good_loads32_def)
  moreover have "list_all is_load (good_loads32 0 (MICROPY_HW_SPIRAM_SIZE div 4))"
    by (simp add: good_loads32_def list_all_iff)
  moreover have "trace (scan32 hw s) = trace s @ stores32 @ good_loads32 0 (MICROPY_HW_SPIRAM_SIZE div 4)"
    using None by (simp add: scan32_def)
  ultimately show ?thesis by blast
next
  case (Some k)
  let ?a = "OSPI_MAP_ADDR + 4 * of_nat k"
  let ?v = "bus_load32 hw (trace s @ stores32 @ good_loads32 0 k) ?a"
  let ?r = "good_loads32 0 k @ [Load32 ?a ?v]"
  have "list_all is_load ?r"
    by (simp add: good_loads32_def list_all_iff)
  moreover have "trace (scan32 hw s) = trace s @ stores32 @ ?r"
    using Some by (simp add: scan32_def Let_def)
  ultimately show ?thesis by (intro exI [of _ ?r]) simp
qed

lemma scan16_events:
  "\<exists>r. trace (scan16 hw s) = trace s @ stores16 @ r \<and> list_all is_load r \<and> r \<noteq> []"
proof (cases "first_mismatch16 hw (trace s @ stores16)")
  case None
  have "0 < MICROPY_HW_SPIRAM_SIZE div 2" by (simp add: window_sizes)
  then have "good_loads16 0 (MICROPY_HW_SPIRAM_SIZE div 2) \<noteq> []" by (simp add: good_loads16_def)
  moreover have "list_all is_load (good_loads16 0 (MICROPY_HW_SPIRAM_SIZE div 2))"
    by (simp add: good_loads16_def list_all_iff)
  moreover have "trace (scan16 hw s) = trace s @ stores16 @ good_loads16 0 (MICROPY_HW_SPIRAM_SIZE div 2)"
    using None by (simp add: scan16_def)
  ultimately show ?thesis by blast
next
  case (Some k)
  let ?a = "OSPI_MAP_ADDR + 2 * of_nat k"
  let ?v = "bus_load16 hw (trace s @ stores16 @ good_loads16 0 k) ?a"
  let ?r = "good_loads16 0 k @ [Load16 ?a ?v]"
  have "list_all is_load ?r"
    by (simp add: good_loads16_def list_all_iff)
  moreover have "trace (scan16 hw s) = trace s @ stores16 @ ?r"
    using Some by (simp add: scan16_def Let_def)
  ultimately show ?thesis by (intro exI [of _ ?r]) simp
qed

lemma scan8_events:
  "\<exists>r. trace (scan8 hw s) = trace s @ stores8 @ r \<and> list_all is_load r \<and> r \<noteq> []"
proof (cases "first_mismatch8 hw (trace s @ stores8)")
  case None
  have "0 < MICROPY_HW_SPIRAM_SIZE" by (simp add: window_sizes)
  then have "good_loads8 0 (MICROPY_HW_SPIRAM_SIZE) \<noteq> []" by (simp add: good_loads8_def)
  moreover have "list_all is_load (good_loads8 0 (MICROPY_HW_SPIRAM_SIZE))"
    by (simp add: good_loads8_def list_all_iff)
  moreover have "trace (scan8 hw s) = trace s @ stores8 @ good_loads8 0 (MICROPY_HW_SPIRAM_SIZE)"
    using None by (simp add: scan8_def)
  ultimately show ?thesis by blast
next
  case (Some k)
  let ?a = "OSPI_MAP_ADDR + of_nat k"
  let ?v = "bus_load8 hw (trace s @ stores8 @ good_loads8 0 k) ?a"
  let ?r = "good_loads8 0 k @ [Load8 ?a ?v]"
  have "list_all is_load ?r"
    by (simp add: good_loads8_def list_all_iff)
  moreover have "trace (scan8 hw s) = trace s @ stores8 @ ?r"
    using Some by (simp add: scan8_def Let_def)
  ultimately show ?thesis by (intro exI [of _ ?r]) simp
qed

lemma spiram_test_events:
  "\<exists>r32 r16 r8.
     events_of s (snd (spiram_test hw fast s)) = stores32 @ r32 @ stores16 @ r16 @ stores8 @ r8
     \<and> list_all is_load r32 \<and> r32 \<noteq> []
     \<and> list_all is_load r16 \<and> r16 \<noteq> []
     \<and> list_all is_load r8 \<and> r8 \<noteq> []"
proof -
  let ?s1 = "scan32 hw s" let ?s2 = "scan16 hw ?s1" let ?s3 = "scan8 hw ?s2"
  from scan32_events [of hw s] obtain r32 where
    1: "trace ?s1 = trace s @ stores32 @ r32" "list_all is_load r32" "r32 \<noteq> []" by blast
  from scan16_events [of hw ?s1] obtain r16 where
    2: "trace ?s2 = trace ?s1 @ stores16 @ r16" "list_all is_load r16" "r16 \<noteq> []" by blast
  from scan8_events [of hw ?s2] obtain r8 where
    3: "trace ?s3 = trace ?s2 @ stores8 @ r8" "list_all is_load r8" "r8 \<noteq> []" by blast
  have "events_of s (snd (spiram_test hw fast s)) = stores32 @ r32 @ stores16 @ r16 @ stores8 @ r8"
    by (rule events_of_append) (simp add: spiram_test_eq 1 2 3)
  with 1 2 3 show ?thesis by blast
qed

section \<open>The claims\<close>

subsection \<open>C1: the return value of spiram_init\<close>

text \<open>
  Claim C1 as stated fails. In the run from the initial state on \<open>hw_mmap_fails\<close>, where
  every transport call succeeds except the activation of the memory mapping, the
  activation call is in the trace with a status other than \<open>HAL_OK\<close>, the failure is the
  recorded outcome, and \<open>spiram_init\<close> returns true.
\<close>

theorem spiram_init_true_when_mapping_fails:
  "fst (spiram_init hw_mmap_fails initial_state)
   \<and> list_ex mapping_failed (trace (snd (spiram_init hw_mmap_fails initial_state)))
   \<and> spiram_err (snd (spiram_init hw_mmap_fails initial_state)) = SPIRAM_ERR_OSPI_MMAP"
  using mmap_fails_run_trace mmap_fails_run_err by (simp add: spiram_init_eq)

text \<open>
  Claim C1, as amended. \<open>spiram_init\<close> returns true in every run, whatever the transport
  calls return. Whether bring-up succeeded shows only in the recorded outcome: in a run
  that starts with no outcome recorded and in which the mapping-activation call fails,
  \<open>spiram_init\<close> still returns true, and the outcome it leaves is a failure (neither ok
  nor self-test-pass).
\<close>

theorem spiram_init_always_true:
  "fst (spiram_init hw s)
   \<and> (spiram_err s = SPIRAM_ERR_OK
        \<and> list_ex mapping_failed (events_of s (snd (spiram_init hw s)))
      \<longrightarrow> spiram_err (snd (spiram_init hw s)) \<noteq> SPIRAM_ERR_OK
          \<and> spiram_err (snd (spiram_init hw s)) \<noteq> SPIRAM_ERR_MEMTEST_PASS)"
  using mapping_failure_recorded [of s hw] by (simp add: spiram_init_eq)

text \<open>
  The amended claim at the run of \<open>hw_mmap_fails\<close> from the initial state: no outcome is
  recorded at the start, the mapping activation fails, \<open>spiram_init\<close> returns true and
  leaves a failure recorded.
\<close>

theorem spiram_init_always_true_witness:
  "spiram_err initial_state = SPIRAM_ERR_OK
   \<and> list_ex mapping_failed
        (events_of initial_state (snd (spiram_init hw_mmap_fails initial_state)))
   \<and> fst (spiram_init hw_mmap_fails initial_state)
   \<and> spiram_err (snd (spiram_init hw_mmap_fails initial_state)) \<noteq> SPIRAM_ERR_OK
   \<and> spiram_err (snd (spiram_init hw_mmap_fails initial_state)) \<noteq> SPIRAM_ERR_MEMTEST_PASS"
proof -
  have ok: "spiram_err initial_state = SPIRAM_ERR_OK"
    by (simp add: initial_state_def)
  have "events_of initial_state (snd (spiram_init hw_mmap_fails initial_state))
      = trace (snd (spiram_init hw_mmap_fails initial_state))"
    by (simp add: events_of_def initial_state_def)
  then have f: "list_ex mapping_failed
        (events_of initial_state (snd (spiram_init hw_mmap_fails initial_state)))"
    using mmap_fails_run_trace by simp
  from spiram_init_always_true [of hw_mmap_fails initial_state] ok f show ?thesis
    by blast
qed

subsection \<open>C2: first failure wins, and the faulting address\<close>

text \<open>
  Claim C2, evaluated on the hardware \<open>hw_scenario2\<close> from the initial state. The 32-bit
  pass finds nothing. The 16-bit pass finds \<open>0x0000\<close> at \<open>0x903E2070\<close> and records the
  16-bit failure with that address and that value. The 8-bit pass then finds a mismatch
  of its own at \<open>0x903E2071\<close>: the recorded variant and the 16-bit value stay, but the
  recorded address is overwritten, so the record ends as a 16-bit failure at
  \<open>0x903E2071\<close>, and that is what \<open>spiram_dmesg\<close> reports. The claim says that no part
  of the first record is overridden.
\<close>

theorem scenario2_address_overwritten:
  "spiram_err (spiram_memtest16 hw_scenario2 (spiram_memtest32 hw_scenario2 initial_state))
     = SPIRAM_ERR_MEMTEST16
   \<and> spiram_bad_addr (spiram_memtest16 hw_scenario2 (spiram_memtest32 hw_scenario2 initial_state))
     = 0x903E2070
   \<and> spiram_bad_pattern16 (spiram_memtest16 hw_scenario2 (spiram_memtest32 hw_scenario2 initial_state))
     = 0x0000
   \<and> spiram_err (snd (spiram_test hw_scenario2 False initial_state)) = SPIRAM_ERR_MEMTEST16
   \<and> spiram_bad_pattern16 (snd (spiram_test hw_scenario2 False initial_state)) = 0x0000
   \<and> spiram_bad_addr (snd (spiram_test hw_scenario2 False initial_state)) = 0x903E2071
   \<and> last (spiram_dmesg (snd (spiram_test hw_scenario2 False initial_state)))
     = (''spiram memtest16 fail, address 0x%08x written 0x%04x read 0x%04x\<newline>'',
        [0x903E2071, 0x5A5A, 0x0000])"
  using scenario2_run scenario2_report by simp

subsection \<open>C3: memory protection and memory mapping, in order\<close>

text \<open>
  Claim C3 as stated fails. In the run from the initial state on \<open>hw_mmap_fails\<close> the MPU
  is configured to grant access to the window, and no activation of the mapping has
  succeeded anywhere in the run: the window is access-enabled and not mapped. In the
  same run, command transactions are issued on the bus before the first MPU event, that
  is, before \<open>block_all\<close>.
\<close>

theorem window_enabled_without_mapping:
  "list_ex enables_window (trace (snd (spiram_init hw_mmap_fails initial_state)))
   \<and> \<not> list_ex maps_window (trace (snd (spiram_init hw_mmap_fails initial_state)))
   \<and> list_ex is_transaction
        (takeWhile (\<lambda>e. \<not> is_mpu e) (trace (snd (spiram_init hw_mmap_fails initial_state))))"
  using mmap_fails_run_trace by simp

text \<open>
  Claim C3, as amended. In every execution of \<open>spiram_init\<close> the trace has this shape:
  first the events \<open>pre\<close> of \<open>ospi_init\<close>, \<open>spiram_quad_on\<close> and \<open>spiram_clear\<close>, none of
  which touches the MPU and none of which is a write-path or read-path configuration
  or an activation of the mapping (they are the controller's initialisation and
  command transactions, of which there are some); then \<open>block_all\<close>; then the
  write-path configuration, the read-path configuration and the activation call, in
  this order; then \<open>enable_window\<close>, right after the activation call has returned and
  whatever status \<open>r3\<close> the hardware gave it; then only loads and stores. So \<open>block_all\<close> precedes every
  transaction that configures the mapping, and the window is never enabled before the
  activation call, but it is enabled also when that call failed.
\<close>

theorem spiram_init_protection_order:
  "\<exists>pre wcfg rcfg mcfg r1 r2 r3 post.
     trace (snd (spiram_init hw s)) =
       trace s @ pre @ block_all_events
         @ [Hal (OSPI_Command wcfg) r1, Hal (OSPI_Command rcfg) r2, Hal (OSPI_MemoryMapped mcfg) r3]
         @ enable_window_events @ post
     \<and> r3 = hal_status hw
              (trace s @ pre @ block_all_events @ [Hal (OSPI_Command wcfg) r1, Hal (OSPI_Command rcfg) r2])
              (OSPI_MemoryMapped mcfg)
     \<and> \<not> list_ex is_mpu pre \<and> \<not> list_ex is_mapping_config pre
     \<and> list_ex is_transaction pre
     \<and> OperationType wcfg = HAL_OSPI_OPTYPE_WRITE_CFG
     \<and> OperationType rcfg = HAL_OSPI_OPTYPE_READ_CFG
     \<and> list_all is_memory_access post"
  by (rule spiram_init_shape)

subsection \<open>C4: the steps of spiram_quad_on\<close>

text \<open>
  Claim C4. Whatever the hardware answers, \<open>spiram_quad_on\<close> issues exactly these calls,
  in this order: reset-enable and reset as command-only transactions on four lines,
  reset-enable and reset on one line, the identifier read on one line (its command and
  its data phase), and quad-enable on one line. The statuses in the trace are the
  hardware's answers. When no outcome was recorded before, the outcome afterwards is
  the variant of the first step that failed, each step having a variant of its own, and
  ok when none failed; an outcome recorded before is kept.
\<close>

theorem spiram_quad_on_steps:
  "\<exists>c1 c2 c3 c4 cid c5 r1 r2 r3 r4 r5 r6 r7.
     trace (spiram_quad_on hw s) =
       trace s @ [Hal (OSPI_Command c1) r1, Hal (OSPI_Command c2) r2, Hal (OSPI_Command c3) r3,
                  Hal (OSPI_Command c4) r4, Hal (OSPI_Command cid) r5, Hal OSPI_Receive r6,
                  Hal (OSPI_Command c5) r7]
     \<and> answered hw (trace s) (events_of s (spiram_quad_on hw s))
     \<and> command_only HAL_OSPI_INSTRUCTION_4_LINES SRAM_CMD_RST_EN c1
     \<and> command_only HAL_OSPI_INSTRUCTION_4_LINES SRAM_CMD_RST c2
     \<and> command_only HAL_OSPI_INSTRUCTION_1_LINE SRAM_CMD_RST_EN c3
     \<and> command_only HAL_OSPI_INSTRUCTION_1_LINE SRAM_CMD_RST c4
     \<and> OperationType cid = HAL_OSPI_OPTYPE_COMMON_CFG
     \<and> InstructionMode cid = HAL_OSPI_INSTRUCTION_1_LINE
     \<and> Instruction cid = SRAM_CMD_READ_ID
     \<and> DataMode cid = HAL_OSPI_DATA_1_LINE
     \<and> NbData cid = 8
     \<and> command_only HAL_OSPI_INSTRUCTION_1_LINE SRAM_CMD_QUAD_ON c5
     \<and> spiram_err (spiram_quad_on hw s) =
          (if spiram_err s = SPIRAM_ERR_OK then
             if r1 \<noteq> HAL_OK then SPIRAM_ERR_QSPI_RST_EN
             else if r2 \<noteq> HAL_OK then SPIRAM_ERR_QSPI_RST
             else if r3 \<noteq> HAL_OK then SPIRAM_ERR_SPI_RSTEN
             else if r4 \<noteq> HAL_OK then SPIRAM_ERR_SPI_RST
             else if r5 \<noteq> HAL_OK then SPIRAM_ERR_READID_CMD
             else if r6 \<noteq> HAL_OK then SPIRAM_ERR_READID_DTA
             else if r7 \<noteq> HAL_OK then SPIRAM_ERR_QUAD_ON
             else SPIRAM_ERR_OK
           else spiram_err s)"
  by (rule spiram_quad_on_shape)

subsection \<open>C5: the three scans of the self-test\<close>


subsection \<open>C6: when the self-test passes\<close>



subsection \<open>C7: the three phases of ospi_mmap\<close>

text \<open>
  Claim C7. \<open>ospi_mmap\<close> blocks the region, then issues the write-path configuration
  (instruction, address and data on four lines, data strobe enabled), then the
  read-path configuration (four lines, data strobe disabled, six dummy cycles), then
  the activation of the mapping with the timeout counter enabled, and then enables the
  window; it does so whatever the hardware answers. When no outcome was recorded
  before, the outcome afterwards is the variant of the first of the three phases that
  failed, each phase having a variant of its own, and ok when none failed; an outcome
  recorded before is kept.
\<close>

theorem ospi_mmap_phases:
  "\<exists>wcfg rcfg mcfg r1 r2 r3.
     trace (ospi_mmap hw s) =
       trace s @ block_all_events
         @ [Hal (OSPI_Command wcfg) r1, Hal (OSPI_Command rcfg) r2, Hal (OSPI_MemoryMapped mcfg) r3]
         @ enable_window_events
     \<and> answered hw (trace s) (events_of s (ospi_mmap hw s))
     \<and> OperationType wcfg = HAL_OSPI_OPTYPE_WRITE_CFG
     \<and> InstructionMode wcfg = HAL_OSPI_INSTRUCTION_4_LINES
     \<and> AddressMode wcfg = HAL_OSPI_ADDRESS_4_LINES
     \<and> DataMode wcfg = HAL_OSPI_DATA_4_LINES
     \<and> DQSMode wcfg = HAL_OSPI_DQS_ENABLE
     \<and> Instruction wcfg = SRAM_CMD_QUAD_WRITE
     \<and> OperationType rcfg = HAL_OSPI_OPTYPE_READ_CFG
     \<and> InstructionMode rcfg = HAL_OSPI_INSTRUCTION_4_LINES
     \<and> AddressMode rcfg = HAL_OSPI_ADDRESS_4_LINES
     \<and> DataMode rcfg = HAL_OSPI_DATA_4_LINES
     \<and> DQSMode rcfg = HAL_OSPI_DQS_DISABLE
     \<and> DummyCycles rcfg = 6
     \<and> Instruction rcfg = SRAM_CMD_QUAD_READ
     \<and> TimeOutActivation mcfg = HAL_OSPI_TIMEOUT_COUNTER_ENABLE
     \<and> spiram_err (ospi_mmap hw s) =
          (if spiram_err s = SPIRAM_ERR_OK then
             if r1 \<noteq> HAL_OK then SPIRAM_ERR_OSPI_WRITE_CONFIG
             else if r2 \<noteq> HAL_OK then SPIRAM_ERR_OSPI_READ_CONFIG
             else if r3 \<noteq> HAL_OK then SPIRAM_ERR_OSPI_MMAP
             else SPIRAM_ERR_OK
           else spiram_err s)"
  by (rule ospi_mmap_shape)

subsection \<open>C8: spiram_read and spiram_write\<close>

text \<open>
  Claim C8. \<open>spiram_read\<close> and \<open>spiram_write\<close> each issue one transaction: one quad
  command for the given address and length and, only when the command succeeded, one
  data phase. When the command fails the function raises at once, with no data phase;
  when the data phase fails it raises; otherwise it returns. In every case the recorded
  outcome, the identifier and the recorded address are what they were: nothing is
  recorded.
\<close>

theorem spiram_read_write_raise:
  "(case spiram_read hw addr len dest s of (out, s') \<Rightarrow>
     trace s' = trace s @ events_of s s'
     \<and> answered hw (trace s) (events_of s s')
     \<and> ((\<exists>c r. quad_transfer SRAM_CMD_QUAD_READ addr len c \<and> r \<noteq> HAL_OK
            \<and> events_of s s' = [Hal (OSPI_Command c) r]
            \<and> out = Inl (RuntimeError ''HAL_OSPI_Command''))
         \<or> (\<exists>c r. quad_transfer SRAM_CMD_QUAD_READ addr len c
            \<and> events_of s s' = [Hal (OSPI_Command c) HAL_OK, Hal OSPI_Receive r]
            \<and> out = (if r \<noteq> HAL_OK then Inl (RuntimeError ''HAL_OSPI_Receive'')
                      else Inr (fill_buffer dest (hal_received hw (trace s @ [Hal (OSPI_Command c) HAL_OK]))))))
     \<and> spiram_err s' = spiram_err s \<and> spiram_id s' = spiram_id s
     \<and> spiram_bad_addr s' = spiram_bad_addr s)
   \<and> (case spiram_write hw addr len src s of (out, s') \<Rightarrow>
     trace s' = trace s @ events_of s s'
     \<and> answered hw (trace s) (events_of s s')
     \<and> ((\<exists>c r. quad_transfer SRAM_CMD_QUAD_WRITE addr len c \<and> r \<noteq> HAL_OK
            \<and> events_of s s' = [Hal (OSPI_Command c) r]
            \<and> out = Inl (RuntimeError ''HAL_OSPI_Command''))
         \<or> (\<exists>c r. quad_transfer SRAM_CMD_QUAD_WRITE addr len c
            \<and> events_of s s' = [Hal (OSPI_Command c) HAL_OK, Hal (OSPI_Transmit src) r]
            \<and> out = (if r \<noteq> HAL_OK then Inl (RuntimeError ''HAL_OSPI_Transmit'') else Inr ())))
     \<and> spiram_err s' = spiram_err s \<and> spiram_id s' = spiram_id s
     \<and> spiram_bad_addr s' = spiram_bad_addr s)"
  using spiram_read_shape spiram_write_shape by (rule conjI)

subsection \<open>C9: the flag fast\<close>

text \<open>
  Claim C9. \<open>spiram_test\<close> does not look at its argument \<open>fast\<close>, and the full test always
  runs. From every state and for every behaviour of the hardware, the call with \<open>fast\<close>
  true and the call with \<open>fast\<close> false return the same result and leave the same state,
  the trace of loads and stores included. And for either value of \<open>fast\<close>: the state left
  is that of the 32-bit, the 16-bit and the 8-bit scan, in this order, followed by the
  offer of the pass outcome; the result is whether the recorded outcome is then
  self-test-pass; and the events of the call are the stores of the pattern to the whole
  window in 32-bit words followed by at least one load, then the same in 16-bit words,
  then the same in bytes.
\<close>

theorem spiram_test_ignores_fast:
  "spiram_test hw True s = spiram_test hw False s
   \<and> snd (spiram_test hw fast s) =
       spiram_error SPIRAM_ERR_MEMTEST_PASS (scan8 hw (scan16 hw (scan32 hw s)))
   \<and> fst (spiram_test hw fast s) =
       (spiram_err (snd (spiram_test hw fast s)) = SPIRAM_ERR_MEMTEST_PASS)
   \<and> (\<exists>r32 r16 r8.
         events_of s (snd (spiram_test hw fast s))
           = stores32 @ r32 @ stores16 @ r16 @ stores8 @ r8
         \<and> list_all is_load r32 \<and> r32 \<noteq> []
         \<and> list_all is_load r16 \<and> r16 \<noteq> []
         \<and> list_all is_load r8 \<and> r8 \<noteq> [])"
proof -
  have a: "spiram_test hw True s = spiram_test hw False s"
    by (simp add: spiram_test_def)
  have b: "snd (spiram_test hw fast s) =
       spiram_error SPIRAM_ERR_MEMTEST_PASS (scan8 hw (scan16 hw (scan32 hw s)))"
    by (simp add: spiram_test_eq)
  have c: "fst (spiram_test hw fast s) =
       (spiram_err (snd (spiram_test hw fast s)) = SPIRAM_ERR_MEMTEST_PASS)"
    by (simp add: spiram_test_eq)
  from a b c spiram_test_events [of s hw fast] show ?thesis by (intro conjI)
qed

subsection \<open>C10: the clearing pass\<close>

text \<open>
  Claim C10. \<open>spiram_init\<close> runs \<open>spiram_clear\<close> after \<open>spiram_quad_on\<close> and before
  \<open>ospi_mmap\<close>. Whatever the hardware answers, \<open>spiram_clear\<close> issues, for each of the
  262144 blocks in address order, a quad write command of 32 bytes at device address
  \<open>32 * j\<close> and then the data phase with the bytes of eight words \<open>0xDEADBEEF\<close>; the
  blocks written are, byte for byte, the addresses \<open>0\<close> up to the size of the device.
  The loop does not stop at a failure. When no outcome was recorded before, the
  outcome afterwards is \<open>SPIRAM_ERR_CLEAR\<close> if any command or data phase of the pass
  failed and ok otherwise; an outcome recorded before is kept.
\<close>

theorem spiram_clear_writes_deadbeef:
  "(\<exists>r1 r2.
     trace (spiram_clear hw s) = trace s @ concat (map (clear_events r1 r2) [0..<262144])
     \<and> answered hw (trace s) (concat (map (clear_events r1 r2) [0..<262144]))
     \<and> spiram_err (spiram_clear hw s) =
         (if spiram_err s = SPIRAM_ERR_OK \<and> (\<exists>j<262144. \<not> (r1 j = HAL_OK \<and> r2 j = HAL_OK))
          then SPIRAM_ERR_CLEAR else spiram_err s))
   \<and> (\<forall>j. quad_transfer SRAM_CMD_QUAD_WRITE (of_nat (32 * j)) 32
              (spiram_clear_cmd\<lparr>Address := of_nat (32 * j)\<rparr>)
          \<and> DQSMode (spiram_clear_cmd\<lparr>Address := of_nat (32 * j)\<rparr>) = HAL_OSPI_DQS_ENABLE)
   \<and> deadbeef_block = concat (replicate 8 (le_bytes32 0xDEADBEEF))
   \<and> concat (map (\<lambda>j. [32 * j..<32 * j + length deadbeef_block]) [0..<262144])
       = [0..<MICROPY_HW_SPIRAM_SIZE]
   \<and> snd (spiram_init hw s) =
       snd (spiram_test hw False
              (ospi_mmap hw (spiram_clear hw (spiram_quad_on hw (ospi_init hw s)))))"
proof -
  have a: "\<exists>r1 r2.
     trace (spiram_clear hw s) = trace s @ concat (map (clear_events r1 r2) [0..<262144])
     \<and> answered hw (trace s) (concat (map (clear_events r1 r2) [0..<262144]))
     \<and> spiram_err (spiram_clear hw s) =
         (if spiram_err s = SPIRAM_ERR_OK \<and> (\<exists>j<262144. \<not> (r1 j = HAL_OK \<and> r2 j = HAL_OK))
          then SPIRAM_ERR_CLEAR else spiram_err s)"
    using spiram_clear_shape [of hw s] by blast
  have b: "\<forall>j. quad_transfer SRAM_CMD_QUAD_WRITE (of_nat (32 * j)) 32
              (spiram_clear_cmd\<lparr>Address := of_nat (32 * j)\<rparr>)
          \<and> DQSMode (spiram_clear_cmd\<lparr>Address := of_nat (32 * j)\<rparr>) = HAL_OSPI_DQS_ENABLE"
    by (simp add: quad_transfer_def spiram_clear_cmd_def spiram_clear_src_def)
  have c: "deadbeef_block = concat (replicate 8 (le_bytes32 0xDEADBEEF))"
    by (simp add: deadbeef_block_def le_bytes32_deadbeef)
  have d: "concat (map (\<lambda>j. [32 * j..<32 * j + length deadbeef_block]) [0..<262144])
       = [0..<MICROPY_HW_SPIRAM_SIZE]"
    by (simp only: deadbeef_block_length blocks_tile spiram_size_blocks)
  have e: "snd (spiram_init hw s) =
       snd (spiram_test hw False
              (ospi_mmap hw (spiram_clear hw (spiram_quad_on hw (ospi_init hw s)))))"
    by (simp add: spiram_init_eq)
  from a b c d e show ?thesis by (intro conjI)
qed

end
